theory Spec2Isabelle
  imports Complex_Main "HOL-Library.Char_ord" "HOL-Library.List_Lexorder" "HOL-Library.Multiset"
    "HOL-Library.Signed_Division" "HOL-Library.Word"
begin

unbundle bit_operations_syntax

section \<open>Go string primitives used by the daemon\<close>

text \<open>
  Go strings are byte sequences; they are modelled as \<open>string\<close> (lists of 8-bit
  characters). The case mapping and the white-space test are the ASCII ones: interface
  names, ethtool feature names and route lines are ASCII text.
\<close>

definition lower_char :: "char \<Rightarrow> char" where
  "lower_char c = (if CHR ''A'' \<le> c \<and> c \<le> CHR ''Z'' then char_of (of_char c + (32::nat)) else c)"

definition ToLower :: "string \<Rightarrow> string" where
  "ToLower s = map lower_char s"

definition is_space :: "char \<Rightarrow> bool" where
  "is_space c = (c = CHR 0x09 \<or> c = CHR 0x0A \<or> c = CHR 0x0B \<or> c = CHR 0x0C \<or> c = CHR 0x0D \<or> c = CHR '' '')"

definition TrimSpace :: "string \<Rightarrow> string" where
  "TrimSpace s = rev (dropWhile is_space (rev (dropWhile is_space s)))"

definition HasPrefix :: "string \<Rightarrow> string \<Rightarrow> bool" where
  "HasPrefix s p = (take (length p) s = p)"

fun Contains :: "string \<Rightarrow> string \<Rightarrow> bool" where
  "Contains [] sub = (sub = [])"
| "Contains (c # s) sub = (HasPrefix (c # s) sub \<or> Contains s sub)"

fun Join :: "string list \<Rightarrow> string \<Rightarrow> string" where
  "Join [] sep = []"
| "Join [x] sep = x"
| "Join (x # y # xs) sep = x @ sep @ Join (y # xs) sep"

text \<open>\<open>strings.Split(s, sep)\<close> for a one-byte separator: the pieces between separators,
  always at least one piece.\<close>

fun split_on :: "char \<Rightarrow> string \<Rightarrow> string list" where
  "split_on sep [] = [[]]"
| "split_on sep (c # s) =
     (if c = sep then [] # split_on sep s
      else (case split_on sep s of [] \<Rightarrow> [[c]] | p # ps \<Rightarrow> (c # p) # ps))"

text \<open>\<open>strings.Fields\<close>: the maximal runs of non-space characters.\<close>

fun fields_acc :: "string \<Rightarrow> string \<Rightarrow> string list" where
  "fields_acc cur [] = (if cur = [] then [] else [rev cur])"
| "fields_acc cur (c # s) =
     (if is_space c then (if cur = [] then fields_acc [] s else rev cur # fields_acc [] s)
      else fields_acc (c # cur) s)"

definition Fields :: "string \<Rightarrow> string list" where
  "Fields s = fields_acc [] s"

section \<open>Template selector (internal/syslimit/sysctlconf.go)\<close>







section \<open>Shaping profiles and signatures (internal/traffic)\<close>

record offloadSetting =
  feature :: string
  state :: string

record shapingProfile =
  queueLength :: string
  rootQdisc :: "string list"
  ifbQdisc :: "string list"
  offloads :: "offloadSetting list"
  mtuOverride :: string




definition normalizeSetFeatureName :: "string \<Rightarrow> string" where
  "normalizeSetFeatureName name =
     (let key = ToLower (TrimSpace name) in
      if key = ''rx-checksum'' \<or> key = ''rx_checksum'' then ''rx''
      else if key = ''tx-checksum'' \<or> key = ''tx_checksum'' then ''tx''
      else ToLower (TrimSpace name))"

text \<open>One entry of the signature's offload part: \<open>fmt.Sprintf("%s=%s", ...)\<close>.\<close>

definition offloadPair :: "offloadSetting \<Rightarrow> string" where
  "offloadPair o' = normalizeSetFeatureName (feature o') @ ''='' @ ToLower (state o')"

text \<open>\<open>sort.Strings\<close> orders byte-wise lexicographically, which is the order of
  \<open>string\<close> here; \<open>sort\<close> returns the one sorted arrangement.\<close>

definition makeSignature :: "string \<Rightarrow> string \<Rightarrow> shapingProfile \<Rightarrow> string" where
  "makeSignature mtu qlen profile =
     ''mtu='' @ mtu @ '';qlen='' @ qlen @
     '';root='' @ Join (rootQdisc profile) '','' @
     '';ifb='' @ Join (ifbQdisc profile) '','' @
     '';off='' @
     (if length (offloads profile) > 0
      then Join (sort (map offloadPair (offloads profile))) '',''
      else [])"

definition IfbPrefix :: string where
  "IfbPrefix = ''ifb4''"

definition truncateIfb :: "string \<Rightarrow> string" where
  "truncateIfb name = (if length name \<le> 15 then name else take 15 name)"

section \<open>Errors (internal/errors)\<close>

text \<open>
  An error handed back by the kernel or by a spawned process is a \<open>syserr\<close>: what
  \<open>errors.Is(err, context.Canceled)\<close> and \<open>errors.As(err, &LinkNotFoundError)\<close> read
  of it, and the text of \<open>err.Error()\<close>. The daemon's own errors wrap these. Of the
  context carried by a categorized error only the operation is kept; message texts are kept
  up to their constant part.
\<close>

datatype errkind = Canceled | LinkNotFound | OtherFailure

datatype syserr = SysErr errkind string

fun isCanceled :: "syserr \<Rightarrow> bool" where
  "isCanceled (SysErr kind msg) = (kind = Canceled)"

fun isNotFound :: "syserr \<Rightarrow> bool" where
  "isNotFound (SysErr kind msg) = (kind = LinkNotFound)"

fun errorText :: "syserr \<Rightarrow> string" where
  "errorText (SysErr kind msg) = msg"

datatype Category = CategoryCritical | CategoryRecoverable | CategoryOptional

datatype error =
    Sys syserr
  | Msg string
  | Errorf string error
  | Categorized Category string error
  | MultiError "error list"

text \<open>\<open>terr.New(category, err, ErrorContext{Operation: op})\<close> and \<open>terr.WrapRecoverable\<close>,
  both called on a non-nil cause.\<close>

definition New :: "Category \<Rightarrow> error \<Rightarrow> string \<Rightarrow> error" where
  "New category err operation = Categorized category operation err"

definition WrapRecoverable :: "error \<Rightarrow> string \<Rightarrow> error" where
  "WrapRecoverable err operation = New CategoryRecoverable err operation"

section \<open>Interface classification (internal/traffic/classifier*.go)\<close>

datatype ifaceClass =
    classUnknown
  | classLoopback
  | classExternalPhysical
  | classExternalVirtual
  | classInternalVirtual
  | classInternalVirtualSkip

text \<open>\<open>net.Flags\<close> is a bit mask; \<open>FlagUp = 1 << 0\<close> and \<open>FlagLoopback = 1 << 2\<close>.\<close>

type_synonym Flags = "64 word"

definition FlagUp :: Flags where
  "FlagUp = 1"

definition FlagLoopback :: Flags where
  "FlagLoopback = 4"

record LinkAttrs =
  Index :: int
  MTU :: int
  TxQLen :: int
  Name :: string
  Flags :: Flags

text \<open>A \<open>netlink.Link\<close> is read only through \<open>Attrs()\<close>, which may be nil.\<close>

type_synonym link = "LinkAttrs option"

definition virtualVendorIDs :: "string set" where
  "virtualVendorIDs = {''0x1414'', ''0x15ad'', ''0x1af4'', ''0x1d0f'', ''0x1ae0'', ''0x1ec1'', ''0x5853''}"

definition virtualDriverModules :: "string set" where
  "virtualDriverModules =
     {''ena'', ''gve'', ''hv_netvsc'', ''netvsc'', ''virtio_net'', ''virtio_pci'', ''vmxnet3''}"

definition internalVirtualPrefixes :: "string list" where
  "internalVirtualPrefixes =
     [''br'', ''docker'', ''veth'', ''virbr'', ''fwbr'', ''fwpr'', ''fwln'', ''tap'']"

definition externalVirtualPrefixes :: "string list" where
  "externalVirtualPrefixes =
     [''tun'', ''tap'', ''wg'', ''zt'', ''gre'', ''gretap'', ''sit'', ''vxlan'', ''macvlan'',
      ''macvtap'', ''ipvlan'']"

definition hasInternalVirtualPrefix :: "string \<Rightarrow> bool" where
  "hasInternalVirtualPrefix name = list_ex (\<lambda>prefix. HasPrefix name prefix) internalVirtualPrefixes"

definition hasExternalVirtualPrefix :: "string \<Rightarrow> bool" where
  "hasExternalVirtualPrefix name = list_ex (\<lambda>prefix. HasPrefix name prefix) externalVirtualPrefixes"

text \<open>
  The view of sysfs the classifier reads: \<open>filepath.EvalSymlinks\<close>, \<open>os.Readlink\<close> and
  \<open>os.ReadFile\<close>, each \<open>None\<close> on error. \<open>filepath.Join\<close> is applied to
  \<open>/sys/class/net\<close> and an interface name, or to such a path and a fixed relative path;
  on these it is concatenation with a separator (the kernel admits no interface name with a
  slash, and none equal to \<open>.\<close> or \<open>..\<close>).
\<close>

record sysfs =
  EvalSymlinks :: "string \<Rightarrow> string option"
  Readlink :: "string \<Rightarrow> string option"
  ReadFile :: "string \<Rightarrow> string option"

definition pathJoin :: "string \<Rightarrow> string \<Rightarrow> string" where
  "pathJoin dir rel = dir @ ''/'' @ rel"

text \<open>\<open>filepath.Base\<close>: trailing slashes dropped, then the text after the last slash.\<close>

definition Base :: "string \<Rightarrow> string" where
  "Base path =
     (if path = [] then ''.''
      else
        (let stripped = rev (dropWhile (\<lambda>c. c = CHR ''/'') (rev path));
             lastElem = rev (takeWhile (\<lambda>c. c \<noteq> CHR ''/'') (rev stripped))
         in if lastElem = [] then ''/'' else lastElem))"

definition isSysfsVirtualPath :: "string \<Rightarrow> bool" where
  "isSysfsVirtualPath resolvedPath =
     (let lower = ToLower resolvedPath in
      if Contains lower ''/sys/devices/virtual/'' then True
      else list_ex (\<lambda>segment. segment = ''virtio'' \<or> HasPrefix segment ''virtio'' \<or> segment = ''vmbus'')
             (split_on CHR ''/'' lower))"

definition readLinkBase :: "sysfs \<Rightarrow> string \<Rightarrow> string" where
  "readLinkBase fs path = (case Readlink fs path of None \<Rightarrow> [] | Some target \<Rightarrow> Base target)"

definition interfaceDriverModule :: "sysfs \<Rightarrow> string \<Rightarrow> string" where
  "interfaceDriverModule fs sysfsPath =
     (let module = readLinkBase fs (pathJoin sysfsPath ''device/driver/module'') in
      if module \<noteq> [] then module
      else readLinkBase fs (pathJoin sysfsPath ''device/driver''))"

definition interfaceVendor :: "sysfs \<Rightarrow> string \<Rightarrow> string" where
  "interfaceVendor fs sysfsPath =
     (case ReadFile fs (pathJoin sysfsPath ''device/vendor'') of
        None \<Rightarrow> []
      | Some data \<Rightarrow> TrimSpace data)"

definition normalizeIdentifier :: "string \<Rightarrow> string" where
  "normalizeIdentifier v =
     map (\<lambda>c. if c = CHR ''-'' then CHR ''_'' else c) (ToLower (TrimSpace v))"

definition detectVirtualHardware :: "sysfs \<Rightarrow> string \<Rightarrow> bool" where
  "detectVirtualHardware fs name =
     (if hasInternalVirtualPrefix name \<or> hasExternalVirtualPrefix name then True
      else
        (let sysfsPath = pathJoin ''/sys/class/net'' name in
         if (case EvalSymlinks fs sysfsPath of
               Some resolved \<Rightarrow> isSysfsVirtualPath resolved
             | None \<Rightarrow> False) then True
         else if (let driver = interfaceDriverModule fs sysfsPath in
                  driver \<noteq> [] \<and> normalizeIdentifier driver \<in> virtualDriverModules) then True
         else if (let vendor = interfaceVendor fs sysfsPath in
                  vendor \<noteq> [] \<and> normalizeIdentifier vendor \<in> virtualVendorIDs) then True
         else False))"

text \<open>The classifier's mutable fields (the refresh clock is not read by \<open>Classify\<close>).\<close>

record InterfaceClassifier =
  externalLinkIndexes :: "int set"
  virtualCache :: "string \<rightharpoonup> bool"

definition NewInterfaceClassifier :: InterfaceClassifier where
  "NewInterfaceClassifier = \<lparr>externalLinkIndexes = {}, virtualCache = Map.empty\<rparr>"

definition isVirtualInterface ::
  "InterfaceClassifier \<Rightarrow> sysfs \<Rightarrow> string \<Rightarrow> bool \<times> InterfaceClassifier" where
  "isVirtualInterface ic fs name =
     (if name = [] then (False, ic)
      else
        (case virtualCache ic name of
           Some cached \<Rightarrow> (cached, ic)
         | None \<Rightarrow>
             (let isVirtual = detectVirtualHardware fs name in
              (isVirtual, ic\<lparr>virtualCache := (virtualCache ic)(name \<mapsto> isVirtual)\<rparr>))))"

definition isExternalInterface :: "InterfaceClassifier \<Rightarrow> int \<Rightarrow> string \<Rightarrow> bool" where
  "isExternalInterface ic linkIndex name =
     (if hasExternalVirtualPrefix name then True
      else if linkIndex \<le> 0 then False
      else linkIndex \<in> externalLinkIndexes ic)"

definition Classify ::
  "InterfaceClassifier \<Rightarrow> sysfs \<Rightarrow> link \<Rightarrow> ifaceClass \<times> InterfaceClassifier" where
  "Classify ic fs attrs =
     (case attrs of
        None \<Rightarrow> (classUnknown, ic)
      | Some a \<Rightarrow>
          (if Flags a AND FlagLoopback \<noteq> 0 then (classLoopback, ic)
           else
             (let name = Name a in
              if name = [] then (classUnknown, ic)
              else if hasInternalVirtualPrefix name then (classInternalVirtualSkip, ic)
              else
                (let (isVirtual, ic') = isVirtualInterface ic fs name;
                     isExternal = isExternalInterface ic' (Index a) name
                 in if isExternal
                    then (if isVirtual then (classExternalVirtual, ic')
                          else (classExternalPhysical, ic'))
                    else if isVirtual then (classInternalVirtual, ic')
                    else (classExternalPhysical, ic')))))"

text \<open>\<open>determineRequiredIfbs\<close> (one loop over the links; the classifier's cache is threaded).\<close>

fun requiredIfbsLoop ::
  "InterfaceClassifier \<Rightarrow> sysfs \<Rightarrow> link list \<Rightarrow> string set \<Rightarrow> string set \<times> InterfaceClassifier" where
  "requiredIfbsLoop ic fs [] required = (required, ic)"
| "requiredIfbsLoop ic fs (l # links) required =
     (case l of
        None \<Rightarrow> requiredIfbsLoop ic fs links required
      | Some attrs \<Rightarrow>
          (let name = Name attrs in
           if name = [] \<or> HasPrefix name ''ifb'' then requiredIfbsLoop ic fs links required
           else
             (let (class, ic') = Classify ic fs (Some attrs) in
              if class = classLoopback \<or> class = classExternalPhysical
                 \<or> class = classExternalVirtual \<or> class = classInternalVirtual
              then requiredIfbsLoop ic' fs links (insert (truncateIfb (IfbPrefix @ name)) required)
              else requiredIfbsLoop ic' fs links required)))"

definition determineRequiredIfbs ::
  "InterfaceClassifier \<Rightarrow> sysfs \<Rightarrow> link list \<Rightarrow> string set \<times> InterfaceClassifier" where
  "determineRequiredIfbs ic fs links = requiredIfbsLoop ic fs links {}"

section \<open>Kernel and process interface (NetlinkClient, CommandExecutor)\<close>

text \<open>
  The daemon reaches the kernel through \<open>NetlinkClient\<close> and spawns \<open>ip\<close>, \<open>tc\<close> and
  \<open>ethtool\<close> through \<open>CommandExecutor.Run\<close>. Both are parameters of the model: a
  \<open>kernel\<close> over a type \<open>'w\<close> of system states gives, for each call, its result and
  the state it leaves. A lookup that succeeds yields a link (the library returns a nil link
  only together with an error). Every state-changing call is also appended to a log, so that
  the calls a function makes can be stated.
\<close>

record Route =
  Dst :: "(int \<times> int) option"
  LinkIndex :: int

record 'w kernel =
  LinkByName :: "'w \<Rightarrow> string \<Rightarrow> syserr + link"
  LinkByIndex :: "'w \<Rightarrow> int \<Rightarrow> syserr + link"
  LinkSetMTU :: "link \<Rightarrow> int \<Rightarrow> 'w \<Rightarrow> syserr option \<times> 'w"
  LinkSetTxQLen :: "link \<Rightarrow> int \<Rightarrow> 'w \<Rightarrow> syserr option \<times> 'w"
  RouteList :: "'w \<Rightarrow> syserr + Route list"
  Run :: "string \<Rightarrow> string list \<Rightarrow> 'w \<Rightarrow> (string \<times> syserr option) \<times> 'w"
  OsReadFile :: "'w \<Rightarrow> string \<Rightarrow> syserr + string"

datatype call =
    RunCmd string "string list"
  | NlLinkSetMTU link int
  | NlLinkSetTxQLen link int

record 'w shaper =
  appliedSignatures :: "string \<rightharpoonup> string"
  world :: 'w
  calls :: "call list"

definition execRun ::
  "'w kernel \<Rightarrow> string \<Rightarrow> string list \<Rightarrow> 'w shaper \<Rightarrow> (string \<times> syserr option) \<times> 'w shaper" where
  "execRun k name args s =
     (let (r, w') = Run k name args (world s)
      in (r, s\<lparr>world := w', calls := calls s @ [RunCmd name args]\<rparr>))"

definition nlLinkSetMTU ::
  "'w kernel \<Rightarrow> link \<Rightarrow> int \<Rightarrow> 'w shaper \<Rightarrow> syserr option \<times> 'w shaper" where
  "nlLinkSetMTU k l mtu s =
     (let (r, w') = LinkSetMTU k l mtu (world s)
      in (r, s\<lparr>world := w', calls := calls s @ [NlLinkSetMTU l mtu]\<rparr>))"

definition nlLinkSetTxQLen ::
  "'w kernel \<Rightarrow> link \<Rightarrow> int \<Rightarrow> 'w shaper \<Rightarrow> syserr option \<times> 'w shaper" where
  "nlLinkSetTxQLen k l qlen s =
     (let (r, w') = LinkSetTxQLen k l qlen (world s)
      in (r, s\<lparr>world := w', calls := calls s @ [NlLinkSetTxQLen l qlen]\<rparr>))"

section \<open>Decimal conversions (strconv.Atoi, the verb \%d)\<close>

definition isDigit :: "char \<Rightarrow> bool" where
  "isDigit c = (CHR ''0'' \<le> c \<and> c \<le> CHR ''9'')"

fun digitsValue :: "nat \<Rightarrow> string \<Rightarrow> nat" where
  "digitsValue acc [] = acc"
| "digitsValue acc (c # cs) = digitsValue (acc * 10 + (of_char c - 48)) cs"

text \<open>\<open>strconv.Atoi\<close> for a 64-bit \<open>int\<close>: an optional sign, then one or more decimal
  digits; \<open>None\<close> on a syntax or range error.\<close>

definition Atoi :: "string \<Rightarrow> int option" where
  "Atoi s =
     (let neg = (s \<noteq> [] \<and> hd s = CHR ''-'');
          ds = (if s \<noteq> [] \<and> (hd s = CHR ''-'' \<or> hd s = CHR ''+'') then tl s else s)
      in if ds = [] \<or> \<not> list_all isDigit ds then None
         else
           (let n = int (digitsValue 0 ds); v = (if neg then - n else n)
            in if v < - (2 ^ 63) \<or> v > 2 ^ 63 - 1 then None else Some v))"

fun natDigits :: "nat \<Rightarrow> string" where
  "natDigits n = (if n < 10 then [char_of (48 + n)] else natDigits (n div 10) @ [char_of (48 + n mod 10)])"

declare natDigits.simps [simp del]

definition Itoa :: "int \<Rightarrow> string" where
  "Itoa i = (if i < 0 then CHR ''-'' # natDigits (nat (- i)) else natDigits (nat i))"

section \<open>Running commands (internal/traffic/tc\_executor.go)\<close>

definition containsAny :: "string \<Rightarrow> string list \<Rightarrow> bool" where
  "containsAny message substrings =
     (if message = [] \<or> length substrings = 0 then False
      else list_ex (\<lambda>sub. sub \<noteq> [] \<and> Contains (ToLower message) (ToLower sub)) substrings)"

text \<open>\<open>execCommand\<close>; of \<open>commandOpts\<close> only \<open>suppress\<close> changes the result (the other
  two fields steer logging).\<close>

definition execCommand ::
  "'w kernel \<Rightarrow> string \<Rightarrow> string list \<Rightarrow> string list \<Rightarrow> 'w shaper \<Rightarrow> error option \<times> 'w shaper" where
  "execCommand k name args suppress s =
     (case execRun k name args s of
        ((output, None), s') \<Rightarrow> (None, s')
      | ((output, Some err), s') \<Rightarrow>
          (if isCanceled err then (Some (Sys err), s')
           else if length suppress > 0
                   \<and> (containsAny (TrimSpace output) suppress \<or> containsAny (errorText err) suppress)
           then (None, s')
           else (Some (Errorf ''command'' (Sys err)), s')))"

definition run :: "'w kernel \<Rightarrow> string \<Rightarrow> string list \<Rightarrow> 'w shaper \<Rightarrow> error option \<times> 'w shaper" where
  "run k name args s = execCommand k name args [] s"

definition runOptional ::
  "'w kernel \<Rightarrow> string \<Rightarrow> string list \<Rightarrow> string list \<Rightarrow> 'w shaper \<Rightarrow> error option \<times> 'w shaper" where
  "runOptional k name args suppressed s = execCommand k name args suppressed s"

definition runQuiet :: "'w kernel \<Rightarrow> string \<Rightarrow> string list \<Rightarrow> 'w shaper \<Rightarrow> error option \<times> 'w shaper" where
  "runQuiet k name args s = execCommand k name args [] s"

definition runGetOutput ::
  "'w kernel \<Rightarrow> string \<Rightarrow> string list \<Rightarrow> 'w shaper \<Rightarrow> (string \<times> syserr option) \<times> 'w shaper" where
  "runGetOutput k name args s = execRun k name args s"

section \<open>tc arguments (internal/traffic/tc\_config.go)\<close>

definition IngressHandle :: string where
  "IngressHandle = ''ffff:''"

record QdiscConfig =
  Device :: string
  Root :: bool
  Parent :: string
  Handle :: string
  Kind :: string
  Options :: "string list"

definition ReplaceArgs :: "QdiscConfig \<Rightarrow> string list" where
  "ReplaceArgs qc =
     [''qdisc'', ''replace'', ''dev'', Device qc]
     @ (if Root qc then [''root''] else if Parent qc \<noteq> [] then [''parent'', Parent qc] else [])
     @ (if Handle qc \<noteq> [] then [''handle'', Handle qc] else [])
     @ (if Kind qc \<noteq> [] then [Kind qc] else [])
     @ (if length (Options qc) > 0 then Options qc else [])"

record FilterConfig =
  FDevice :: string
  FParent :: string
  Protocol :: string
  Pref :: string
  FKind :: string
  Actions :: "string list"

definition DeleteArgs :: "FilterConfig \<Rightarrow> string list" where
  "DeleteArgs fc =
     [''filter'', ''del'', ''dev'', FDevice fc, ''parent'', FParent fc,
      ''protocol'', Protocol fc, ''pref'', Pref fc]"

definition AddArgs :: "FilterConfig \<Rightarrow> string list" where
  "AddArgs fc =
     [''filter'', ''add'', ''dev'', FDevice fc, ''parent'', FParent fc,
      ''protocol'', Protocol fc, ''pref'', Pref fc, FKind fc]
     @ (if length (Actions fc) > 0 then Actions fc else [])"

definition splitQdiscSpec :: "string list \<Rightarrow> string \<times> string list" where
  "splitQdiscSpec spec = (case spec of [] \<Rightarrow> ([], []) | kind # options \<Rightarrow> (kind, options))"

definition rootQdiscConfig :: "string \<Rightarrow> string list \<Rightarrow> QdiscConfig" where
  "rootQdiscConfig device spec =
     (let (kind, options) = splitQdiscSpec spec
      in \<lparr>Device = device, Root = True, Parent = [], Handle = [], Kind = kind, Options = options\<rparr>)"

definition ifbRootQdiscConfig :: "string \<Rightarrow> string list \<Rightarrow> QdiscConfig" where
  "ifbRootQdiscConfig ifb spec = rootQdiscConfig ifb spec"

definition ingressQdiscConfig :: "string \<Rightarrow> QdiscConfig" where
  "ingressQdiscConfig device =
     \<lparr>Device = device, Root = False, Parent = [], Handle = IngressHandle, Kind = ''ingress'',
      Options = []\<rparr>"

definition replaceFilter :: "'w kernel \<Rightarrow> FilterConfig \<Rightarrow> 'w shaper \<Rightarrow> error option \<times> 'w shaper" where
  "replaceFilter k cfg s =
     (let (ignored, s1) = runQuiet k ''tc'' (DeleteArgs cfg) s
      in run k ''tc'' (AddArgs cfg) s1)"

section \<open>External-interface cache (internal/traffic/classifier\_cache.go)\<close>

text \<open>The index set built by \<open>RefreshExternalInterfaces\<close> (its clock and its logging are
  left out): the link indexes of the default routes of both families, a family whose route
  listing fails contributing nothing. \<open>Dst\<close> of a route is \<open>None\<close> for a nil destination and
  otherwise holds \<open>Mask.Size()\<close>.\<close>

definition isDefaultRoute :: "Route \<Rightarrow> bool" where
  "isDefaultRoute r = (case Dst r of None \<Rightarrow> True | Some (ones, bits) \<Rightarrow> bits > 0 \<and> ones = 0)"

fun collectRouteIndexes :: "Route list \<Rightarrow> int set \<Rightarrow> int set" where
  "collectRouteIndexes [] linkIndexes = linkIndexes"
| "collectRouteIndexes (r # routes) linkIndexes =
     (if \<not> isDefaultRoute r \<or> LinkIndex r \<le> 0 then collectRouteIndexes routes linkIndexes
      else collectRouteIndexes routes (insert (LinkIndex r) linkIndexes))"

definition fetchRouteIndexes :: "syserr + Route list \<Rightarrow> int set \<Rightarrow> int set" where
  "fetchRouteIndexes listed linkIndexes =
     (case listed of Inl err \<Rightarrow> linkIndexes | Inr routes \<Rightarrow> collectRouteIndexes routes linkIndexes)"

definition refreshExternalLinkIndexes ::
  "InterfaceClassifier \<Rightarrow> syserr + Route list \<Rightarrow> syserr + Route list \<Rightarrow> InterfaceClassifier" where
  "refreshExternalLinkIndexes ic v4 v6 =
     ic\<lparr>externalLinkIndexes := fetchRouteIndexes v6 (fetchRouteIndexes v4 {})\<rparr>"

section \<open>IFB devices (internal/traffic/ifb\_manager.go)\<close>

definition ensureIfbUp ::
  "'w kernel \<Rightarrow> string \<Rightarrow> LinkAttrs \<Rightarrow> 'w shaper \<Rightarrow> error option \<times> 'w shaper" where
  "ensureIfbUp k name attrs s =
     (if Flags attrs AND FlagUp = 0
      then (case run k ''ip'' [''link'', ''set'', name, ''up''] s of
              (Some err, s1) \<Rightarrow> (Some (New CategoryRecoverable (Errorf ''set ifb up'' err) []), s1)
            | (None, s1) \<Rightarrow> (None, s1))
      else (None, s))"

text \<open>The part of \<open>ensureIfb\<close> after the link has been looked up (or created).\<close>

definition ensureIfbLink ::
  "'w kernel \<Rightarrow> string \<Rightarrow> string \<Rightarrow> string \<Rightarrow> link \<Rightarrow> 'w shaper \<Rightarrow> error option \<times> 'w shaper" where
  "ensureIfbLink k name mtu qlen l s =
     (case l of
        None \<Rightarrow> (Some (New CategoryRecoverable (Msg ''link attrs missing'') []), s)
      | Some attrs \<Rightarrow>
          (case Atoi mtu of
             None \<Rightarrow> (Some (New CategoryRecoverable (Errorf ''parse mtu'' (Msg ''strconv.Atoi'')) []), s)
           | Some desiredMTU \<Rightarrow>
               (case Atoi qlen of
                  None \<Rightarrow> (Some (New CategoryRecoverable (Errorf ''parse qlen'' (Msg ''strconv.Atoi'')) []), s)
                | Some desiredQueueLen \<Rightarrow>
                    (if MTU attrs \<noteq> desiredMTU \<or> TxQLen attrs \<noteq> desiredQueueLen
                     then
                       (case run k ''ip'' [''link'', ''set'', name, ''qlen'', qlen, ''mtu'', mtu] s of
                          (Some err, s1) \<Rightarrow>
                            (Some (New CategoryRecoverable (Errorf ''update ifb parameters'' err) []), s1)
                        | (None, s1) \<Rightarrow>
                            (let attrs' = (case LinkByName k (world s1) name of
                                             Inr (Some refreshed) \<Rightarrow> refreshed
                                           | _ \<Rightarrow> attrs)
                             in ensureIfbUp k name attrs' s1))
                     else ensureIfbUp k name attrs s))))"

definition ensureIfb ::
  "'w kernel \<Rightarrow> string \<Rightarrow> string \<Rightarrow> string \<Rightarrow> 'w shaper \<Rightarrow> error option \<times> 'w shaper" where
  "ensureIfb k name mtu qlen s =
     (case LinkByName k (world s) name of
        Inl err \<Rightarrow>
          (if isNotFound err
           then
             (case run k ''ip'' [''link'', ''add'', ''name'', name, ''type'', ''ifb''] s of
                (Some runErr, s1) \<Rightarrow>
                  (Some (New CategoryRecoverable (Errorf ''create ifb'' runErr) []), s1)
              | (None, s1) \<Rightarrow>
                  (case LinkByName k (world s1) name of
                     Inl err2 \<Rightarrow>
                       (Some (New CategoryRecoverable (Errorf ''lookup ifb after create'' (Sys err2))
                                ''link_lookup_post_create''), s1)
                   | Inr l \<Rightarrow> ensureIfbLink k name mtu qlen l s1))
           else (Some (New CategoryRecoverable (Errorf ''lookup ifb'' (Sys err)) ''link_lookup''), s))
      | Inr l \<Rightarrow> ensureIfbLink k name mtu qlen l s)"

section \<open>Offloads (ethtool)\<close>

definition suppressOffloads :: "string list" where
  "suppressOffloads =
     [''Operation not supported'', ''bit name not found'', ''cannot modify an unsupported parameter'']"

definition mapDesiredToReadKey :: "string \<Rightarrow> string" where
  "mapDesiredToReadKey name =
     (let key = ToLower (TrimSpace name) in
      if key = ''rx'' \<or> key = ''rx-checksum'' \<or> key = ''rx_checksum'' then ''rx-checksumming''
      else if key = ''tx'' \<or> key = ''tx-checksum'' \<or> key = ''tx_checksum'' then ''tx-checksumming''
      else if key = ''sg'' \<or> key = ''scatter-gather'' then ''scatter-gather''
      else if key = ''tso'' then ''tcp-segmentation-offload''
      else if key = ''gso'' then ''generic-segmentation-offload''
      else if key = ''gro'' then ''generic-receive-offload''
      else if key = ''lro'' then ''large-receive-offload''
      else if key = ''ufo'' then ''udp-fragmentation-offload''
      else if key = ''tx-gso-partial'' then ''tx-gso-partial''
      else if key = ''tx-scatter-gather'' then ''tx-scatter-gather''
      else [])"

text \<open>One line of \<open>ethtool -k\<close> output, folded into the feature map and the set of fixed keys.\<close>

definition ethtoolLine ::
  "(string \<rightharpoonup> string) \<times> string set \<Rightarrow> string \<Rightarrow> (string \<rightharpoonup> string) \<times> string set" where
  "ethtoolLine acc raw =
     (let ln = TrimSpace raw in
      if ln = [] then acc
      else if HasPrefix (ToLower ln) ''features for '' \<or> HasPrefix (ToLower ln) ''offload parameters for ''
      then acc
      else if CHR '':'' \<notin> set ln then acc
      else
        (let key = TrimSpace (takeWhile (\<lambda>c. c \<noteq> CHR '':'') ln);
             val = TrimSpace (tl (dropWhile (\<lambda>c. c \<noteq> CHR '':'') ln));
             vstate = (if Contains (ToLower val) ''on'' then ''on''
                       else if Contains (ToLower val) ''off'' then ''off'' else []);
             features = (fst acc)(key \<mapsto> vstate)
         in if Contains (ToLower val) ''[fixed]'' then (features, insert key (snd acc))
            else (features, snd acc)))"

definition readEthtoolFeatures ::
  "'w kernel \<Rightarrow> string \<Rightarrow> 'w shaper \<Rightarrow> ((string \<rightharpoonup> string) \<times> string set) option \<times> 'w shaper" where
  "readEthtoolFeatures k iface s =
     (case runGetOutput k ''ethtool'' [''-k'', iface] s of
        ((out, err), s1) \<Rightarrow>
          (if err \<noteq> None \<or> out = [] then (None, s1)
           else (Some (foldl ethtoolLine (Map.empty, {}) (split_on CHR 0x0A out)), s1)))"

text \<open>The fallback of \<open>ensureOffloads\<close>: one \<open>ethtool -K\<close> per setting, errors dropped.\<close>

fun offloadsFallback :: "'w kernel \<Rightarrow> string \<Rightarrow> offloadSetting list \<Rightarrow> 'w shaper \<Rightarrow> 'w shaper" where
  "offloadsFallback k iface [] s = s"
| "offloadsFallback k iface (setting # settings) s =
     (let feat = normalizeSetFeatureName (feature setting);
          (ignored, s1) = runOptional k ''ethtool'' [''-K'', iface, feat, state setting] suppressOffloads s
      in offloadsFallback k iface settings s1)"

text \<open>\<open>strings.EqualFold\<close> on ASCII text.\<close>

definition EqualFold :: "string \<Rightarrow> string \<Rightarrow> bool" where
  "EqualFold a b = (ToLower a = ToLower b)"

fun offloadsBatch ::
  "(string \<rightharpoonup> string) \<Rightarrow> string set \<Rightarrow> offloadSetting list \<Rightarrow> string list" where
  "offloadsBatch cur fixed [] = []"
| "offloadsBatch cur fixed (x # settings) =
     (let readKey = mapDesiredToReadKey (feature x);
          setKey = normalizeSetFeatureName (feature x)
      in if readKey = [] \<or> setKey = [] then offloadsBatch cur fixed settings
         else if readKey \<in> fixed then offloadsBatch cur fixed settings
         else if (case cur readKey of Some curState \<Rightarrow> EqualFold curState (state x) | None \<Rightarrow> False)
         then offloadsBatch cur fixed settings
         else [setKey, state x] @ offloadsBatch cur fixed settings)"

definition ensureOffloads :: "'w kernel \<Rightarrow> string \<Rightarrow> offloadSetting list \<Rightarrow> 'w shaper \<Rightarrow> 'w shaper" where
  "ensureOffloads k iface settings s =
     (if length settings = 0 then s
      else
        (case readEthtoolFeatures k iface s of
           (None, s1) \<Rightarrow> offloadsFallback k iface settings s1
         | (Some (cur, fixed), s1) \<Rightarrow>
             (let batched = offloadsBatch cur fixed settings in
              if length batched = 0 then s1
              else snd (runOptional k ''ethtool'' ([''-K'', iface] @ batched) suppressOffloads s1))))"

section \<open>Profile application (configureProfile and its steps)\<close>

definition MinMTU :: int where "MinMTU = 68"
definition MaxMTU :: int where "MaxMTU = 65535"
definition MinQueueLen :: int where "MinQueueLen = 1"
definition MaxQueueLen :: int where "MaxQueueLen = 1000000"

record profileContext =
  iface :: string
  attrs :: LinkAttrs
  profile :: shapingProfile
  profileName :: string
  mtuStr :: string
  pcQueueLength :: string
  desiredMTU :: int
  desiredQueueLen :: int
  signature :: string
  ifbName :: string

type_synonym 'w profileStep = "'w kernel \<Rightarrow> profileContext \<Rightarrow> 'w shaper \<Rightarrow> error option \<times> 'w shaper"

definition configureLinkParamsStep :: "'w profileStep" where
  "configureLinkParamsStep k pc s =
     (if MTU (attrs pc) = desiredMTU pc \<and> TxQLen (attrs pc) = desiredQueueLen pc then (None, s)
      else
        (case LinkByName k (world s) (iface pc) of
           Inl err \<Rightarrow> (Some (WrapRecoverable (Errorf ''lookup link'' (Sys err)) ''configure_link_params''), s)
         | Inr l \<Rightarrow>
             (case (if MTU (attrs pc) \<noteq> desiredMTU pc then nlLinkSetMTU k l (desiredMTU pc) s
                    else (None, s)) of
                (Some err, s1) \<Rightarrow>
                  (Some (WrapRecoverable (Errorf ''set mtu'' (Sys err)) ''configure_link_params''), s1)
              | (None, s1) \<Rightarrow>
                  (case (if TxQLen (attrs pc) \<noteq> desiredQueueLen pc
                         then nlLinkSetTxQLen k l (desiredQueueLen pc) s1 else (None, s1)) of
                     (Some err, s2) \<Rightarrow>
                       (Some (WrapRecoverable (Errorf ''set tx queue len'' (Sys err))
                                ''configure_link_params''), s2)
                   | (None, s2) \<Rightarrow> (None, s2)))))"

definition configureRootQdiscStep :: "'w profileStep" where
  "configureRootQdiscStep k pc s =
     (if length (rootQdisc (profile pc)) = 0 then (None, s)
      else
        (let qdisc = rootQdiscConfig (iface pc) (rootQdisc (profile pc)) in
         case run k ''tc'' (ReplaceArgs qdisc) s of
           (Some err, s1) \<Rightarrow>
             (Some (WrapRecoverable (Errorf ''configure root qdisc'' err) ''configure_root_qdisc''), s1)
         | (None, s1) \<Rightarrow> (None, s1)))"

definition redirectFilter :: "profileContext \<Rightarrow> FilterConfig" where
  "redirectFilter pc =
     \<lparr>FDevice = iface pc, FParent = IngressHandle, Protocol = ''all'', Pref = ''1'',
      FKind = ''matchall'',
      Actions = [''action'', ''mirred'', ''egress'', ''redirect'', ''dev'', ifbName pc]\<rparr>"

definition configureIngressAndIfbStep :: "'w profileStep" where
  "configureIngressAndIfbStep k pc s =
     (case run k ''tc'' (ReplaceArgs (ingressQdiscConfig (iface pc))) s of
        (Some err, s1) \<Rightarrow>
          (Some (WrapRecoverable (Errorf ''configure ingress qdisc'' err) ''configure_ingress_qdisc''), s1)
      | (None, s1) \<Rightarrow>
          (case ensureIfb k (ifbName pc) (mtuStr pc) (pcQueueLength pc) s1 of
             (Some err, s2) \<Rightarrow> (Some (WrapRecoverable (Errorf ''ensure ifb'' err) ''ensure_ifb''), s2)
           | (None, s2) \<Rightarrow>
               (case (if length (ifbQdisc (profile pc)) > 0
                      then run k ''tc'' (ReplaceArgs (ifbRootQdiscConfig (ifbName pc) (ifbQdisc (profile pc)))) s2
                      else (None, s2)) of
                  (Some err, s3) \<Rightarrow>
                    (Some (WrapRecoverable (Errorf ''configure ifb root qdisc'' err)
                             ''configure_ifb_root_qdisc''), s3)
                | (None, s3) \<Rightarrow>
                    (case replaceFilter k (redirectFilter pc) s3 of
                       (Some err, s4) \<Rightarrow>
                         (Some (WrapRecoverable (Errorf ''replace filter'' err) ''configure_tc_filter''), s4)
                     | (None, s4) \<Rightarrow> (None, s4)))))"

definition ensureOffloadsStep :: "'w profileStep" where
  "ensureOffloadsStep k pc s = (None, ensureOffloads k (iface pc) (offloads (profile pc)) s)"

fun runProfileSteps ::
  "'w kernel \<Rightarrow> profileContext \<Rightarrow> 'w profileStep list \<Rightarrow> 'w shaper \<Rightarrow> error option \<times> 'w shaper" where
  "runProfileSteps k pc [] s = (None, s)"
| "runProfileSteps k pc (step # steps) s =
     (case step k pc s of
        (Some err, s1) \<Rightarrow> (Some err, s1)
      | (None, s1) \<Rightarrow> runProfileSteps k pc steps s1)"

definition validateProfileInput :: "link \<Rightarrow> string \<Rightarrow> error option" where
  "validateProfileInput l pname =
     (case l of
        None \<Rightarrow> Some (New CategoryRecoverable (Msg ''link attrs missing for profile'') [])
      | Some a \<Rightarrow>
          (if Name a = [] then Some (New CategoryRecoverable (Msg ''link name missing for profile'') [])
           else None))"

definition deriveProfileParameters :: "LinkAttrs \<Rightarrow> shapingProfile \<Rightarrow> string \<times> string" where
  "deriveProfileParameters a p =
     (let mtu = (if mtuOverride p \<noteq> [] then mtuOverride p else Itoa (MTU a))
      in (mtu, queueLength p))"

definition isAlreadyConfigured :: "'w kernel \<Rightarrow> 'w shaper \<Rightarrow> string \<Rightarrow> string \<Rightarrow> bool" where
  "isAlreadyConfigured k s ifname sig =
     (case appliedSignatures s ifname of
        None \<Rightarrow> False
      | Some prev \<Rightarrow>
          (if prev \<noteq> sig then False
           else
             (case LinkByName k (world s) (truncateIfb (IfbPrefix @ ifname)) of
                Inl err \<Rightarrow> False
              | Inr None \<Rightarrow> False
              | Inr (Some a) \<Rightarrow> Flags a AND FlagUp \<noteq> 0)))"

definition wrapInterfaceError :: "error \<Rightarrow> string \<Rightarrow> string \<Rightarrow> error" where
  "wrapInterfaceError err ifname operation = New CategoryRecoverable err operation"

definition parseProfileParameters :: "string \<Rightarrow> string \<Rightarrow> string \<Rightarrow> string \<Rightarrow> error + (int \<times> int)" where
  "parseProfileParameters ifname mtu qlen pname =
     (case Atoi mtu of
        None \<Rightarrow> Inl (wrapInterfaceError (Errorf ''parse mtu'' (Msg ''strconv.Atoi'')) ifname ''parse_profile_mtu'')
      | Some dMTU \<Rightarrow>
          (if dMTU < MinMTU \<or> dMTU > MaxMTU
           then Inl (wrapInterfaceError (Msg ''mtu out of range'') ifname ''validate_profile_mtu'')
           else
             (case Atoi qlen of
                None \<Rightarrow>
                  Inl (wrapInterfaceError (Errorf ''parse qlen'' (Msg ''strconv.Atoi'')) ifname
                         ''parse_profile_queue'')
              | Some dQueueLen \<Rightarrow>
                  (if dQueueLen < MinQueueLen \<or> dQueueLen > MaxQueueLen
                   then Inl (wrapInterfaceError (Msg ''queue length out of range'') ifname
                               ''validate_profile_queue'')
                   else Inr (dMTU, dQueueLen)))))"

text \<open>\<open>buildProfileContext\<close> returns \<open>(nil, false, err)\<close>, \<open>(nil, true, nil)\<close> or
  \<open>(ctx, false, nil)\<close>; the three shapes are the three constructors.\<close>

datatype buildResult = Failed error | AlreadyConfigured | Built profileContext

definition buildProfileContext ::
  "'w kernel \<Rightarrow> 'w shaper \<Rightarrow> link \<Rightarrow> shapingProfile \<Rightarrow> string \<Rightarrow> buildResult" where
  "buildProfileContext k s l p pname =
     (case validateProfileInput l pname of
        Some err \<Rightarrow> Failed err
      | None \<Rightarrow>
          (case l of
             None \<Rightarrow> Failed (New CategoryRecoverable (Msg ''link attrs missing for profile'') [])
           | Some a \<Rightarrow>
               (let ifname = Name a;
                    (mtu, qlen) = deriveProfileParameters a p;
                    sig = makeSignature mtu qlen p
                in if isAlreadyConfigured k s ifname sig then AlreadyConfigured
                   else
                     (case parseProfileParameters ifname mtu qlen pname of
                        Inl err \<Rightarrow> Failed err
                      | Inr (dMTU, dQueueLen) \<Rightarrow>
                          Built \<lparr>iface = ifname, attrs = a, profile = p, profileName = pname,
                                 mtuStr = mtu, pcQueueLength = qlen, desiredMTU = dMTU,
                                 desiredQueueLen = dQueueLen, signature = sig,
                                 ifbName = truncateIfb (IfbPrefix @ ifname)\<rparr>))))"

definition profileSteps :: "'w profileStep list" where
  "profileSteps =
     [configureLinkParamsStep, configureRootQdiscStep, configureIngressAndIfbStep, ensureOffloadsStep]"

definition configureProfile ::
  "'w kernel \<Rightarrow> 'w shaper \<Rightarrow> link \<Rightarrow> shapingProfile \<Rightarrow> string \<Rightarrow> error option \<times> 'w shaper" where
  "configureProfile k s l p pname =
     (case buildProfileContext k s l p pname of
        Failed err \<Rightarrow> (Some err, s)
      | AlreadyConfigured \<Rightarrow> (None, s)
      | Built profileCtx \<Rightarrow>
          (case runProfileSteps k profileCtx profileSteps s of
             (Some err, s1) \<Rightarrow> (Some err, s1)
           | (None, s1) \<Rightarrow>
               (None, s1\<lparr>appliedSignatures :=
                           (appliedSignatures s1)(iface profileCtx \<mapsto> signature profileCtx)\<rparr>)))"

section \<open>Pending changes of the netlink watcher\<close>

text \<open>
  \<open>names\<close> is a Go map used as a set; a nil map and an empty map read alike. A
  \<open>LinkUpdate\<close> embeds a link, read through \<open>Attrs()\<close>; of an \<open>AddrUpdate\<close> only the link
  index is read. The selector handed to \<open>applyInterfaces\<close> is \<open>None\<close> for the nil map
  (all interfaces) and \<open>Some names\<close> otherwise.
\<close>

record pendingChanges =
  all :: bool
  names :: "string set"

record LinkUpdate =
  UpdateLink :: link

record AddrUpdate =
  UpdateLinkIndex :: int

definition newPendingChanges :: pendingChanges where
  "newPendingChanges = \<lparr>all = False, names = {}\<rparr>"

definition addNameLocked :: "pendingChanges \<Rightarrow> string \<Rightarrow> pendingChanges" where
  "addNameLocked p name = p\<lparr>names := insert name (names p)\<rparr>"

definition markAllLocked :: "pendingChanges \<Rightarrow> pendingChanges" where
  "markAllLocked p = p\<lparr>all := True, names := {}\<rparr>"

definition AddLink :: "pendingChanges \<Rightarrow> LinkUpdate \<Rightarrow> pendingChanges" where
  "AddLink p update =
     (if all p then p
      else
        (case UpdateLink update of
           Some a \<Rightarrow> (if Name a \<noteq> [] then addNameLocked p (Name a) else markAllLocked p)
         | None \<Rightarrow> markAllLocked p))"

definition safeGetLinkAttrs :: "'w kernel \<Rightarrow> 'w \<Rightarrow> int \<Rightarrow> error + LinkAttrs" where
  "safeGetLinkAttrs k w index =
     (case LinkByIndex k w index of
        Inl err \<Rightarrow> Inl (Errorf ''link by index'' (Sys err))
      | Inr None \<Rightarrow> Inl (Msg ''link attrs is nil'')
      | Inr (Some a) \<Rightarrow> Inr a)"

definition AddAddr :: "'w kernel \<Rightarrow> 'w \<Rightarrow> pendingChanges \<Rightarrow> AddrUpdate \<Rightarrow> pendingChanges" where
  "AddAddr k w p update =
     (if all p then p
      else
        (case safeGetLinkAttrs k w (UpdateLinkIndex update) of
           Inr a \<Rightarrow> (if Name a \<noteq> [] then addNameLocked p (Name a) else markAllLocked p)
         | Inl err \<Rightarrow> markAllLocked p))"

definition snapshot :: "pendingChanges \<Rightarrow> bool \<times> string set option" where
  "snapshot p =
     (if all p then (True, None)
      else if names p = {} then (False, None)
      else (False, Some (names p)))"

definition clear :: "pendingChanges \<Rightarrow> pendingChanges" where
  "clear p = p\<lparr>all := False, names := {}\<rparr>"

text \<open>\<open>applyPending\<close>; the apply pass, which hands the links to a pool of workers, is the
  parameter \<open>applyInterfaces\<close>. The result carries the pending changes left behind.\<close>

definition applyPending ::
  "(string set option \<Rightarrow> 's \<Rightarrow> error option \<times> 's) \<Rightarrow> pendingChanges \<Rightarrow> 's
     \<Rightarrow> error option \<times> pendingChanges \<times> 's" where
  "applyPending applyInterfaces pending s =
     (let (applyAll, selected) = snapshot pending in
      if \<not> applyAll \<and> (case selected of None \<Rightarrow> True | Some ns \<Rightarrow> ns = {})
      then (None, pending, s)
      else
        (let pending' = clear pending in
         if applyAll
         then (let (err, s') = applyInterfaces None s in (err, pending', s'))
         else (let (err, s') = applyInterfaces selected s in (err, pending', s'))))"

section \<open>Route optimizer (internal/route)\<close>

text \<open>A Go \<open>int\<close> has 64 bits on the build targets (amd64, arm64): sums wrap around, and
  \<open>/\<close> truncates towards zero.\<close>

definition wrapInt :: "int \<Rightarrow> int" where
  "wrapInt i = signed_take_bit 63 i"

record WindowConfig =
  MSSBytes :: int
  InitCwndBytes :: int
  InitRwndBytes :: int
  LoopbackWindowBytes :: int

definition defaultMSS :: int where
  "defaultMSS = 1460"

definition WithDefaults :: "WindowConfig \<Rightarrow> WindowConfig" where
  "WithDefaults c = (if MSSBytes c \<le> 0 then c\<lparr>MSSBytes := defaultMSS\<rparr> else c)"

definition bytesToSegments :: "int \<Rightarrow> int \<Rightarrow> int" where
  "bytesToSegments bytes mss =
     (if mss \<le> 0 \<or> bytes \<le> 0 then 0
      else wrapInt (bytes + mss - 1) sdiv mss)"

record Optimizer =
  cfg :: WindowConfig
  initCwndSegments :: int
  initRwndSegments :: int
  loopbackCwndSegments :: int
  loopbackRwndSegments :: int
  hasNetlink :: bool

definition NewOptimizer :: "WindowConfig \<Rightarrow> bool \<Rightarrow> Optimizer" where
  "NewOptimizer c0 netlinkGiven =
     (let c = WithDefaults c0;
          cwnd = bytesToSegments (InitCwndBytes c) (MSSBytes c);
          rwnd = bytesToSegments (InitRwndBytes c) (MSSBytes c);
          loopbackWindowSegments = bytesToSegments (LoopbackWindowBytes c) (MSSBytes c)
      in \<lparr>cfg = c, initCwndSegments = cwnd, initRwndSegments = rwnd,
          loopbackCwndSegments = loopbackWindowSegments,
          loopbackRwndSegments = loopbackWindowSegments,
          hasNetlink = netlinkGiven\<rparr>)"

record params =
  mtu :: int
  initCwnd :: int
  initRwnd :: int
  congctl :: string

definition newParams :: "int \<Rightarrow> int \<Rightarrow> int \<Rightarrow> string \<Rightarrow> params" where
  "newParams m cw rw cc = \<lparr>mtu = m, initCwnd = cw, initRwnd = rw, congctl = cc\<rparr>"

definition args :: "params \<Rightarrow> string list" where
  "args p =
     [''mtu'', Itoa (mtu p), ''initcwnd'', Itoa (initCwnd p), ''initrwnd'', Itoa (initRwnd p),
      ''fastopen_no_cookie'', ''1'']
     @ (if congctl p \<noteq> [] then [''congctl'', ''lock'', congctl p] else [])"

text \<open>\<open>strings.Split\<close> for a separator of any positive length.\<close>

function splitStr :: "string \<Rightarrow> string \<Rightarrow> string \<Rightarrow> string list" where
  "splitStr sep cur [] = [rev cur]"
| "splitStr sep cur (c # s) =
     (if sep \<noteq> [] \<and> HasPrefix (c # s) sep
      then rev cur # splitStr sep [] (drop (length sep) (c # s))
      else splitStr sep (c # cur) s)"
  by pat_completeness auto
termination
  by (relation "measure (\<lambda>(sep, cur, s). length s)") auto

definition Split :: "string \<Rightarrow> string \<Rightarrow> string list" where
  "Split s sep = splitStr sep [] s"

text \<open>
  \<open>bufio.Scanner\<close> with the default split function and buffer: the lines of the text, without
  their end-of-line markers, the empty remainder after a final newline not being a line; a line
  of \<open>MaxScanTokenSize\<close> bytes or more makes \<open>Err()\<close> report \<open>ErrTooLong\<close>.
\<close>

definition MaxScanTokenSize :: nat where
  "MaxScanTokenSize = 64 * 1024"

definition dropCR :: "string \<Rightarrow> string" where
  "dropCR l = (if l \<noteq> [] \<and> last l = CHR 0x0D then butlast l else l)"

definition scanLines :: "string \<Rightarrow> error + string list" where
  "scanLines text =
     (let pieces = split_on CHR 0x0A text;
          raw = (if last pieces = [] then butlast pieces else pieces)
      in if list_ex (\<lambda>l. length l \<ge> MaxScanTokenSize) raw then Inl (Msg ''bufio.Scanner: token too long'')
         else Inr (map dropCR raw))"

definition runIPCommand ::
  "'w kernel \<Rightarrow> string list \<Rightarrow> 'w shaper \<Rightarrow> (string \<times> syserr option) \<times> 'w shaper" where
  "runIPCommand k xs s = execRun k ''ip'' xs s"

definition runCommand ::
  "'w kernel \<Rightarrow> string \<Rightarrow> string list \<Rightarrow> 'w shaper \<Rightarrow> (string \<times> syserr option) \<times> 'w shaper" where
  "runCommand k name xs s = execRun k name xs s"

definition fetchRoutes ::
  "'w kernel \<Rightarrow> string list \<Rightarrow> 'w shaper \<Rightarrow> (error + string list) \<times> 'w shaper" where
  "fetchRoutes k xs s =
     (case runIPCommand k xs s of
        ((output, Some err), s1) \<Rightarrow> (Inl (Sys err), s1)
      | ((output, None), s1) \<Rightarrow> (scanLines output, s1))"

fun devAfter :: "string list \<Rightarrow> string option" where
  "devAfter (a # b # rest) = (if a = ''dev'' then Some b else devAfter (b # rest))"
| "devAfter rest = None"

fun extractDeviceLines :: "string list \<Rightarrow> string \<times> bool" where
  "extractDeviceLines [] = ([], False)"
| "extractDeviceLines (line # rest) =
     (case devAfter (Fields line) of
        Some device \<Rightarrow> (if device = [] then ([], False) else (device, True))
      | None \<Rightarrow> extractDeviceLines rest)"

definition extractDevice :: "string \<Rightarrow> string \<times> bool" where
  "extractDevice output =
     (if output = [] then ([], False) else extractDeviceLines (split_on CHR 0x0A output))"

definition shouldOptimizeLocal :: "string \<Rightarrow> bool" where
  "shouldOptimizeLocal line =
     (if line = [] \<or> \<not> HasPrefix line ''local '' then False
      else if Contains line ''broadcast'' then False
      else if Contains line ''linkdown'' then False
      else (case extractDevice line of (device, ok) \<Rightarrow> \<not> (ok \<and> device = ''lo'')))"

definition shouldOptimizeLoopback :: "string \<Rightarrow> bool" where
  "shouldOptimizeLoopback line =
     (if line = [] \<or> \<not> HasPrefix line ''local '' then False
      else (case extractDevice line of (device, ok) \<Rightarrow> if \<not> ok then False else device = ''lo''))"

definition shouldOptimizeNIC :: "string \<Rightarrow> string \<Rightarrow> bool" where
  "shouldOptimizeNIC line nic =
     (if line = [] \<or> Contains line ''linkdown'' \<or> Contains line ''congctl'' then False
      else (case extractDevice line of (device, ok) \<Rightarrow> if \<not> ok then False else device = nic))"

definition isVirtualName :: "string \<Rightarrow> bool" where
  "isVirtualName name =
     (if name = [] then True
      else list_ex (\<lambda>prefix. HasPrefix name prefix) [''docker'', ''br-'', ''veth'', ''lo''])"

fun cleanTokens :: "string list \<Rightarrow> string list" where
  "cleanTokens [] = []"
| "cleanTokens (token # rest) =
     (if token = ''mtu'' \<or> token = ''initcwnd'' \<or> token = ''initrwnd'' \<or> token = ''fastopen_no_cookie''
      then (case rest of [] \<Rightarrow> [] | skipped # rest' \<Rightarrow> cleanTokens rest')
      else if token = ''congctl''
      then (case rest of
              lock # algo # rest' \<Rightarrow>
                (if lock = ''lock'' then cleanTokens rest' else token # cleanTokens rest)
            | _ \<Rightarrow> token # cleanTokens rest)
      else token # cleanTokens rest)"

definition cleanRouteLine :: "string \<Rightarrow> string" where
  "cleanRouteLine line =
     (let tokens = Fields line in
      if length tokens = 0 then [] else Join (cleanTokens tokens) '' '')"

definition applyRouteChange ::
  "'w kernel \<Rightarrow> string \<Rightarrow> string list \<Rightarrow> 'w shaper \<Rightarrow> error option \<times> 'w shaper" where
  "applyRouteChange k routeLine ps s =
     (let tokens = Fields routeLine in
      if length tokens = 0 then (Some (Msg ''empty route line''), s)
      else
        (case runIPCommand k ([''route'', ''change''] @ tokens @ ps) s of
           ((output, Some err), s1) \<Rightarrow> (Some (Errorf ''ip'' (Sys err)), s1)
         | ((output, None), s1) \<Rightarrow> (None, s1)))"

definition filterRoutes :: "string list \<Rightarrow> (string \<Rightarrow> bool) \<Rightarrow> string list" where
  "filterRoutes lines predicate = filter predicate (map TrimSpace lines)"

text \<open>The loop of \<open>applyRoutes\<close>, with its three accumulators.\<close>

fun applyRoutesLoop ::
  "'w kernel \<Rightarrow> string list \<Rightarrow> string list \<Rightarrow> nat \<Rightarrow> nat \<Rightarrow> error option \<Rightarrow> 'w shaper
     \<Rightarrow> (nat \<times> nat \<times> error option) \<times> 'w shaper" where
  "applyRoutesLoop k [] ps optimized failures firstErr s = ((optimized, failures, firstErr), s)"
| "applyRoutesLoop k (route # routes) ps optimized failures firstErr s =
     (if route = [] then applyRoutesLoop k routes ps optimized failures firstErr s
      else
        (let routeLine = cleanRouteLine route in
         if routeLine = [] then applyRoutesLoop k routes ps optimized failures firstErr s
         else
           (case applyRouteChange k routeLine ps s of
              (Some err, s1) \<Rightarrow>
                applyRoutesLoop k routes ps optimized (failures + 1)
                  (if firstErr = None then Some err else firstErr) s1
            | (None, s1) \<Rightarrow> applyRoutesLoop k routes ps (optimized + 1) failures firstErr s1)))"

definition applyRoutes ::
  "'w kernel \<Rightarrow> string list \<Rightarrow> string list \<Rightarrow> 'w shaper \<Rightarrow> (nat \<times> nat \<times> error option) \<times> 'w shaper" where
  "applyRoutes k routes ps s =
     (if length routes = 0 then ((0, 0, None), s) else applyRoutesLoop k routes ps 0 0 None s)"

record routeJob =
  category :: string
  routeArgs :: "string list"
  routeFilter :: "string \<Rightarrow> bool"
  jobParams :: params
  fetchOperation :: string
  applyOperation :: string

definition fetchError :: "routeJob \<Rightarrow> error \<Rightarrow> error" where
  "fetchError job err = New CategoryRecoverable (Errorf ''fetch routes'' err) (fetchOperation job)"

definition applyError :: "routeJob \<Rightarrow> error \<Rightarrow> error" where
  "applyError job err = New CategoryRecoverable (Errorf ''apply route changes'' err) (applyOperation job)"

definition optimize :: "'w kernel \<Rightarrow> routeJob \<Rightarrow> 'w shaper \<Rightarrow> error option \<times> 'w shaper" where
  "optimize k job s =
     (case fetchRoutes k (routeArgs job) s of
        (Inl err, s1) \<Rightarrow> (Some (fetchError job err), s1)
      | (Inr lines, s1) \<Rightarrow>
          (let filtered = filterRoutes lines (routeFilter job) in
           case applyRoutes k filtered (args (jobParams job)) s1 of
             ((optimized, skipped, Some applyErr), s2) \<Rightarrow> (Some (applyError job applyErr), s2)
           | ((optimized, skipped, None), s2) \<Rightarrow> (None, s2)))"

definition optimizeLocal :: "'w kernel \<Rightarrow> Optimizer \<Rightarrow> 'w shaper \<Rightarrow> error option \<times> 'w shaper" where
  "optimizeLocal k opt s =
     optimize k
       \<lparr>category = ''local'', routeArgs = [''route'', ''show'', ''table'', ''local''],
        routeFilter = shouldOptimizeLocal,
        jobParams = newParams 1500 (initCwndSegments opt) (initRwndSegments opt) ''cubic'',
        fetchOperation = ''fetch_local_routes'', applyOperation = ''optimize_local_routes''\<rparr> s"

definition optimizeLoopback :: "'w kernel \<Rightarrow> Optimizer \<Rightarrow> 'w shaper \<Rightarrow> error option \<times> 'w shaper" where
  "optimizeLoopback k opt s =
     optimize k
       \<lparr>category = ''loopback'', routeArgs = [''route'', ''show'', ''table'', ''local''],
        routeFilter = shouldOptimizeLoopback,
        jobParams = newParams 65520 (loopbackCwndSegments opt) (loopbackRwndSegments opt) ''cubic'',
        fetchOperation = ''fetch_loopback_routes'', applyOperation = ''optimize_loopback_routes''\<rparr> s"

text \<open>Primary-NIC detection. The two loops of \<open>getPrimaryNICFromNetlink\<close>: a default route
  whose link has a name, then any route whose link name is not a virtual one.\<close>

fun firstDefaultRouteNIC :: "'w kernel \<Rightarrow> 'w \<Rightarrow> Route list \<Rightarrow> string option" where
  "firstDefaultRouteNIC k w [] = None"
| "firstDefaultRouteNIC k w (r # routes) =
     (if Dst r \<noteq> None \<or> LinkIndex r \<le> 0 then firstDefaultRouteNIC k w routes
      else
        (case safeGetLinkAttrs k w (LinkIndex r) of
           Inl err \<Rightarrow> firstDefaultRouteNIC k w routes
         | Inr a \<Rightarrow> (if Name a \<noteq> [] then Some (Name a) else firstDefaultRouteNIC k w routes)))"

fun firstPhysicalRouteNIC :: "'w kernel \<Rightarrow> 'w \<Rightarrow> Route list \<Rightarrow> string option" where
  "firstPhysicalRouteNIC k w [] = None"
| "firstPhysicalRouteNIC k w (r # routes) =
     (if LinkIndex r \<le> 0 then firstPhysicalRouteNIC k w routes
      else
        (case safeGetLinkAttrs k w (LinkIndex r) of
           Inl err \<Rightarrow> firstPhysicalRouteNIC k w routes
         | Inr a \<Rightarrow>
             (if Name a = [] \<or> isVirtualName (Name a) then firstPhysicalRouteNIC k w routes
              else Some (Name a))))"

definition getPrimaryNICFromNetlink :: "'w kernel \<Rightarrow> 'w \<Rightarrow> error + string" where
  "getPrimaryNICFromNetlink k w =
     (case RouteList k w of
        Inl err \<Rightarrow> Inl (Errorf ''route list'' (Sys err))
      | Inr routes \<Rightarrow>
          (case firstDefaultRouteNIC k w routes of
             Some name \<Rightarrow> Inr name
           | None \<Rightarrow>
               (case firstPhysicalRouteNIC k w routes of
                  Some name \<Rightarrow> Inr name
                | None \<Rightarrow> Inl (Msg ''no suitable network interface found via netlink''))))"

fun firstDefaultLineNIC :: "string list \<Rightarrow> string option" where
  "firstDefaultLineNIC [] = None"
| "firstDefaultLineNIC (raw # rest) =
     (let line = TrimSpace raw in
      if \<not> HasPrefix line ''default '' then firstDefaultLineNIC rest
      else (case extractDevice line of
              (nic, ok) \<Rightarrow> if ok \<and> nic \<noteq> [] then Some nic else firstDefaultLineNIC rest))"

fun firstPhysicalLineNIC :: "string list \<Rightarrow> string option" where
  "firstPhysicalLineNIC [] = None"
| "firstPhysicalLineNIC (raw # rest) =
     (let line = TrimSpace raw in
      if Contains line ''linkdown'' then firstPhysicalLineNIC rest
      else (case extractDevice line of
              (nic, ok) \<Rightarrow>
                if \<not> ok \<or> nic = ''lo'' then firstPhysicalLineNIC rest
                else if \<not> isVirtualName nic then Some nic
                else firstPhysicalLineNIC rest))"

definition getPrimaryNICFromCommand :: "'w kernel \<Rightarrow> 'w shaper \<Rightarrow> (error + string) \<times> 'w shaper" where
  "getPrimaryNICFromCommand k s =
     (case fetchRoutes k [''route'', ''show''] s of
        (Inl err, s1) \<Rightarrow> (Inl err, s1)
      | (Inr lines, s1) \<Rightarrow>
          (case firstDefaultLineNIC lines of
             Some nic \<Rightarrow> (Inr nic, s1)
           | None \<Rightarrow>
               (case firstPhysicalLineNIC lines of
                  Some nic \<Rightarrow> (Inr nic, s1)
                | None \<Rightarrow> (Inl (Msg ''no suitable network interface found''), s1))))"

definition getPrimaryNIC :: "'w kernel \<Rightarrow> Optimizer \<Rightarrow> 'w shaper \<Rightarrow> (error + string) \<times> 'w shaper" where
  "getPrimaryNIC k opt s =
     (if hasNetlink opt
      then (case getPrimaryNICFromNetlink k (world s) of
              Inr nic \<Rightarrow> (if nic \<noteq> [] then (Inr nic, s) else getPrimaryNICFromCommand k s)
            | Inl err \<Rightarrow> getPrimaryNICFromCommand k s)
      else getPrimaryNICFromCommand k s)"

definition getCurrentCongestionControl :: "'w kernel \<Rightarrow> 'w shaper \<Rightarrow> (error + string) \<times> 'w shaper" where
  "getCurrentCongestionControl k s =
     (case runCommand k ''sysctl'' [''net.ipv4.tcp_congestion_control''] s of
        ((output, err), s1) \<Rightarrow>
          (let parts = (if err = None then Split (TrimSpace output) '' = '' else []) in
           if err = None \<and> length parts = 2 then (Inr (TrimSpace (parts ! 1)), s1)
           else
             (case OsReadFile k (world s1) ''/proc/sys/net/ipv4/tcp_congestion_control'' of
                Inl rerr \<Rightarrow> (Inl (Errorf ''failed to read congestion control'' (Sys rerr)), s1)
              | Inr data \<Rightarrow>
                  (if TrimSpace data \<noteq> [] then (Inr (TrimSpace data), s1)
                   else (Inl (Msg ''empty congestion control value''), s1)))))"

definition optimizeNIC :: "'w kernel \<Rightarrow> Optimizer \<Rightarrow> 'w shaper \<Rightarrow> error option \<times> 'w shaper" where
  "optimizeNIC k opt s =
     (case getPrimaryNIC k opt s of
        (Inl err, s1) \<Rightarrow>
          (Some (New CategoryRecoverable (Errorf ''failed to detect primary NIC'' err) ''detect_primary_nic''), s1)
      | (Inr nic, s1) \<Rightarrow>
          (if nic = []
           then (Some (New CategoryRecoverable (Errorf ''failed to detect primary NIC'' (Msg ''<nil>''))
                         ''detect_primary_nic''), s1)
           else
             (case getCurrentCongestionControl k s1 of
                (res, s2) \<Rightarrow>
                  (let cc = (case res of Inl err \<Rightarrow> ''cubic'' | Inr v \<Rightarrow> v) in
                   optimize k
                     \<lparr>category = ''nic'', routeArgs = [''route'', ''show''],
                      routeFilter = (\<lambda>line. shouldOptimizeNIC line nic),
                      jobParams = newParams 1500 (initCwndSegments opt) (initRwndSegments opt) cc,
                      fetchOperation = ''fetch_nic_routes'', applyOperation = ''optimize_nic_routes''\<rparr>
                     s2))))"

text \<open>\<open>MultiError.Add\<close> and \<open>ErrorOrNil\<close> on the list of collected errors.\<close>

definition Add :: "error list \<Rightarrow> error option \<Rightarrow> error list" where
  "Add errs err = (case err of None \<Rightarrow> errs | Some e \<Rightarrow> errs @ [e])"

definition ErrorOrNil :: "error list \<Rightarrow> error option" where
  "ErrorOrNil errs = (if length errs = 0 then None else Some (MultiError errs))"

definition Optimize :: "'w kernel \<Rightarrow> Optimizer \<Rightarrow> 'w shaper \<Rightarrow> error option \<times> 'w shaper" where
  "Optimize k opt s =
     (let (e1, s1) = optimizeLoopback k opt s;
          errs1 = Add [] (map_option (Errorf ''loopback'') e1);
          (e2, s2) = optimizeLocal k opt s1;
          errs2 = Add errs1 (map_option (Errorf ''local'') e2);
          (e3, s3) = optimizeNIC k opt s2;
          errs3 = Add errs2 (map_option (Errorf ''nic'') e3)
      in (ErrorOrNil errs3, s3))"

text \<open>\<open>Shaper.Apply\<close>: the optimizer's error is logged and dropped; the apply pass over all
  interfaces (selector \<open>None\<close>) is the parameter \<open>applyInterfaces\<close>.\<close>

definition Apply ::
  "'w kernel \<Rightarrow> Optimizer \<Rightarrow> (string set option \<Rightarrow> 'w shaper \<Rightarrow> error option \<times> 'w shaper)
     \<Rightarrow> 'w shaper \<Rightarrow> error option \<times> 'w shaper" where
  "Apply k opt applyInterfaces s =
     (let (optErr, s1) = Optimize k opt s in applyInterfaces None s1)"






definition scenarioProfile :: shapingProfile where
  "scenarioProfile =
     \<lparr>queueLength = ''10001'',
      rootQdisc = [''cake'', ''unlimited'', ''besteffort''],
      ifbQdisc = [''cake'', ''unlimited'', ''diffserv4''],
      offloads = [\<lparr>feature = ''rx'', state = ''on''\<rparr>, \<lparr>feature = ''tx'', state = ''on''\<rparr>,
                  \<lparr>feature = ''gro'', state = ''off''\<rparr>],
      mtuOverride = ''''\<rparr>"
text \<open>The decision procedure of the specification for \<open>Classify\<close>, in its words: first
  match wins, and no class other than the five named ones is produced.\<close>

definition virtualByRules :: "sysfs \<Rightarrow> string \<Rightarrow> bool" where
  "virtualByRules fs name =
     (list_ex (HasPrefix name) (internalVirtualPrefixes @ externalVirtualPrefixes)
      \<or> (case EvalSymlinks fs (''/sys/class/net/'' @ name) of
            Some resolved \<Rightarrow> isSysfsVirtualPath resolved | None \<Rightarrow> False)
      \<or> (interfaceDriverModule fs (''/sys/class/net/'' @ name) \<noteq> []
          \<and> normalizeIdentifier (interfaceDriverModule fs (''/sys/class/net/'' @ name)) \<in> virtualDriverModules)
      \<or> (interfaceVendor fs (''/sys/class/net/'' @ name) \<noteq> []
          \<and> normalizeIdentifier (interfaceVendor fs (''/sys/class/net/'' @ name)) \<in> virtualVendorIDs))"

definition classifyByRules :: "InterfaceClassifier \<Rightarrow> sysfs \<Rightarrow> LinkAttrs \<Rightarrow> ifaceClass" where
  "classifyByRules ic fs a =
     (if Flags a AND FlagLoopback \<noteq> 0 then classLoopback
      else if list_ex (HasPrefix (Name a))
                [''br'', ''docker'', ''veth'', ''virbr'', ''fwbr'', ''fwpr'', ''fwln'', ''tap'']
      then classInternalVirtualSkip
      else
        (let isVirtual = virtualByRules fs (Name a);
             isExternal = (hasExternalVirtualPrefix (Name a) \<or> Index a \<in> externalLinkIndexes ic)
         in if isExternal \<and> isVirtual then classExternalVirtual
            else if isExternal \<and> \<not> isVirtual then classExternalPhysical
            else if \<not> isExternal \<and> isVirtual then classInternalVirtual
            else classExternalPhysical))"

text \<open>What holds of a classifier between calls: a cached answer is the one detection gives on
  the sysfs view at hand, and the index set holds positive indexes only.\<close>

definition classifierInv :: "InterfaceClassifier \<Rightarrow> sysfs \<Rightarrow> bool" where
  "classifierInv ic fs =
     ((\<forall>n b. virtualCache ic n = Some b \<longrightarrow> b = detectVirtualHardware fs n)
      \<and> (\<forall>i \<in> externalLinkIndexes ic. 0 < i))"

definition noSysfs :: sysfs where
  "noSysfs = \<lparr>EvalSymlinks = (\<lambda>p. None), Readlink = (\<lambda>p. None), ReadFile = (\<lambda>p. None)\<rparr>"

definition virtioSysfs :: sysfs where
  "virtioSysfs =
     \<lparr>EvalSymlinks = (\<lambda>p. None),
      Readlink = (\<lambda>p. if p = ''/sys/class/net/ens3/device/driver/module''
                       then Some ''../../../../module/virtio_net'' else None),
      ReadFile = (\<lambda>p. None)\<rparr>"

definition linkNamed :: "string \<Rightarrow> int \<Rightarrow> LinkAttrs" where
  "linkNamed n i = \<lparr>Index = i, MTU = 1500, TxQLen = 1000, Name = n, Flags = 1\<rparr>"

text \<open>The signature \<open>buildProfileContext\<close> computes for a link and a profile, and the
  context it returns once the parameters have parsed to \<open>dm\<close> and \<open>dq\<close>.\<close>

definition desiredSignature :: "LinkAttrs \<Rightarrow> shapingProfile \<Rightarrow> string" where
  "desiredSignature a p =
     makeSignature (fst (deriveProfileParameters a p)) (snd (deriveProfileParameters a p)) p"

definition builtContext :: "LinkAttrs \<Rightarrow> shapingProfile \<Rightarrow> string \<Rightarrow> int \<Rightarrow> int \<Rightarrow> profileContext" where
  "builtContext a p pname dm dq =
     \<lparr>iface = Name a, attrs = a, profile = p, profileName = pname,
      mtuStr = fst (deriveProfileParameters a p), pcQueueLength = snd (deriveProfileParameters a p),
      desiredMTU = dm, desiredQueueLen = dq, signature = desiredSignature a p,
      ifbName = truncateIfb (IfbPrefix @ Name a)\<rparr>"

text \<open>A kernel for worked examples: every lookup by name finds a link that is up, with MTU
  1500 and queue length 10001; every command and every netlink call succeeds silently.\<close>

definition stubKernel :: "unit kernel" where
  "stubKernel =
     \<lparr>LinkByName = (\<lambda>w n. Inr (Some \<lparr>Index = 9, MTU = 1500, TxQLen = 10001, Name = n, Flags = 1\<rparr>)),
      LinkByIndex = (\<lambda>w i. Inl (SysErr OtherFailure ''no such index'')),
      LinkSetMTU = (\<lambda>l v w. (None, w)),
      LinkSetTxQLen = (\<lambda>l v w. (None, w)),
      RouteList = (\<lambda>w. Inr []),
      Run = (\<lambda>name xs w. (([], None), w)),
      OsReadFile = (\<lambda>w path. Inl (SysErr OtherFailure ''no such file''))\<rparr>"

definition idleShaper :: "unit shaper" where
  "idleShaper = \<lparr>appliedSignatures = Map.empty, world = (), calls = []\<rparr>"

definition eth0Link :: LinkAttrs where
  "eth0Link = \<lparr>Index = 2, MTU = 1500, TxQLen = 1000, Name = ''eth0'', Flags = 1\<rparr>"

definition zeroMtuLink :: LinkAttrs where
  "zeroMtuLink = \<lparr>Index = 2, MTU = 0, TxQLen = 1000, Name = ''eth0'', Flags = 1\<rparr>"

definition scenarioSignature :: string where
  "scenarioSignature =
     ''mtu=1500;qlen=10001;root=cake,unlimited,besteffort;ifb=cake,unlimited,diffserv4;off=gro=off,rx=on,tx=on''"

definition shapedShaper :: "unit shaper" where
  "shapedShaper = \<lparr>appliedSignatures = [''eth0'' \<mapsto> scenarioSignature], world = (), calls = []\<rparr>"

text \<open>The loopback MSS of the configuration package (internal/config/types.go), which the
  route optimizer does not read.\<close>

definition defaultLoopbackMSS :: int where
  "defaultLoopbackMSS = 65520"

text \<open>The window configuration \<open>main\<close> hands to the shaper leaves \<open>MSSBytes\<close> unset; here
  with a loopback window of 16 MiB and the default initial windows of the role template.\<close>

definition mainWindowConfig :: WindowConfig where
  "mainWindowConfig =
     \<lparr>MSSBytes = 0, InitCwndBytes = 1024 * 1460, InitRwndBytes = 3 * 1024 * 1024,
      LoopbackWindowBytes = 16 * 1024 * 1024\<rparr>"

text \<open>The events of the watcher loop that reach the pending changes, each with the kernel
  state at its arrival.\<close>

datatype 'w watchEvent = LinkEvent LinkUpdate | AddrEvent 'w AddrUpdate

fun handleEvent :: "'w kernel \<Rightarrow> pendingChanges \<Rightarrow> 'w watchEvent \<Rightarrow> pendingChanges" where
  "handleEvent k p (LinkEvent u) = AddLink p u"
| "handleEvent k p (AddrEvent w u) = AddAddr k w p u"

text \<open>A link update, and an address update, carry no resolvable name.\<close>

definition linkUnresolved :: "LinkUpdate \<Rightarrow> bool" where
  "linkUnresolved u = (case UpdateLink u of None \<Rightarrow> True | Some a \<Rightarrow> Name a = [])"

definition addrUnresolved :: "'w kernel \<Rightarrow> 'w \<Rightarrow> AddrUpdate \<Rightarrow> bool" where
  "addrUnresolved k w u =
     (case LinkByIndex k w (UpdateLinkIndex u) of
        Inl err \<Rightarrow> True
      | Inr None \<Rightarrow> True
      | Inr (Some a) \<Rightarrow> Name a = [])"

text \<open>A categorized error of category Recoverable.\<close>

fun isRecoverable :: "error \<Rightarrow> bool" where
  "isRecoverable (Categorized c operation cause) = (c = CategoryRecoverable)"
| "isRecoverable e = False"

text \<open>An apply pass that only records the selector it was called with.\<close>

definition recordSelector :: "string set option \<Rightarrow> string set option list \<Rightarrow> error option \<times> string set option list" where
  "recordSelector sel seen = (None, seen @ [sel])"

section \<open>Properties\<close>

subsection \<open>Strings\<close>

lemma of_char_lower_char:
  "(of_char (lower_char c) :: nat) = (if 65 \<le> (of_char c :: nat) \<and> (of_char c :: nat) \<le> 90 then of_char c + 32 else of_char c)"
  by (simp add: lower_char_def less_eq_char_def)

lemma char_eq_code: "c = d \<longleftrightarrow> (of_char c :: nat) = of_char d"
  by simp

lemma is_space_iff: "is_space c \<longleftrightarrow> (of_char c :: nat) \<in> {9, 10, 11, 12, 13, 32}"
  unfolding is_space_def
  by (subst (1 2 3 4 5 6) char_eq_code) simp

lemma is_space_lower_char [simp]: "is_space (lower_char c) = is_space c"
  unfolding is_space_iff of_char_lower_char by auto













lemma sort_cong_mset: "mset xs = mset ys \<Longrightarrow> sort xs = sort ys"
  by (metis mset_sort properties_for_sort sorted_sort)

lemma Join_Nil [simp]: "Join [] sep = []"
  by simp

lemma scenario_signature:
  "makeSignature ''1500'' ''10001'' scenarioProfile =
     ''mtu=1500;qlen=10001;root=cake,unlimited,besteffort;ifb=cake,unlimited,diffserv4;off=gro=off,rx=on,tx=on''"
  by code_simp

text \<open>
  Claim C2 (signature computation). \<open>makeSignature\<close> returns the text
  \<open>mtu=<mtu>;qlen=<qlen>;root=<root tokens, comma-joined>;ifb=<ifb tokens, comma-joined>;off=<sorted offload pairs, comma-joined>\<close>;
  replacing the offload list by any permutation of it leaves the signature unchanged (and the
  signature, being a function of its three arguments, is the same on each computation); on the
  profile of scenario D it is the expected text.
\<close>

theorem makeSignature_spec:
  "makeSignature m q p =
     ''mtu='' @ m @ '';qlen='' @ q @ '';root='' @ Join (rootQdisc p) '','' @
     '';ifb='' @ Join (ifbQdisc p) '','' @ '';off='' @
     Join (sort (map (\<lambda>x. normalizeSetFeatureName (feature x) @ ''='' @ ToLower (state x)) (offloads p))) '',''
   \<and> (mset ys = mset (offloads p) \<longrightarrow>
        makeSignature m q (p\<lparr>offloads := ys\<rparr>) = makeSignature m q p)
   \<and> makeSignature ''1500'' ''10001'' scenarioProfile =
       ''mtu=1500;qlen=10001;root=cake,unlimited,besteffort;ifb=cake,unlimited,diffserv4;off=gro=off,rx=on,tx=on''"
proof (intro conjI impI)
  have "offloadPair = (\<lambda>x. normalizeSetFeatureName (feature x) @ ''='' @ ToLower (state x))"
    by (rule ext) (simp add: offloadPair_def)
  then show "makeSignature m q p =
     ''mtu='' @ m @ '';qlen='' @ q @ '';root='' @ Join (rootQdisc p) '','' @
     '';ifb='' @ Join (ifbQdisc p) '','' @ '';off='' @
     Join (sort (map (\<lambda>x. normalizeSetFeatureName (feature x) @ ''='' @ ToLower (state x)) (offloads p))) '',''"
    by (cases "offloads p") (simp_all add: makeSignature_def)
next
  assume a: "mset ys = mset (offloads p)"
  then have "mset (map offloadPair ys) = mset (map offloadPair (offloads p))" by simp
  then have "sort (map offloadPair ys) = sort (map offloadPair (offloads p))"
    by (rule sort_cong_mset)
  moreover from a have "length ys = length (offloads p)" by (rule mset_eq_length)
  ultimately show "makeSignature m q (p\<lparr>offloads := ys\<rparr>) = makeSignature m q p"
    by (simp add: makeSignature_def)
next
  show "makeSignature ''1500'' ''10001'' scenarioProfile =
       ''mtu=1500;qlen=10001;root=cake,unlimited,besteffort;ifb=cake,unlimited,diffserv4;off=gro=off,rx=on,tx=on''"
    by (rule scenario_signature)
qed

text \<open>A permuted offload list of the scenario-D profile.\<close>

theorem makeSignature_spec_witness:
  "mset [\<lparr>feature = ''gro'', state = ''off''\<rparr>, \<lparr>feature = ''tx'', state = ''on''\<rparr>,
         \<lparr>feature = ''rx'', state = ''on''\<rparr>] = mset (offloads scenarioProfile)
   \<and> makeSignature ''1500'' ''10001''
        (scenarioProfile\<lparr>offloads := [\<lparr>feature = ''gro'', state = ''off''\<rparr>, \<lparr>feature = ''tx'', state = ''on''\<rparr>,
         \<lparr>feature = ''rx'', state = ''on''\<rparr>]\<rparr>) = makeSignature ''1500'' ''10001'' scenarioProfile"
proof -
  have h: "mset [\<lparr>feature = ''gro'', state = ''off''\<rparr>, \<lparr>feature = ''tx'', state = ''on''\<rparr>,
         \<lparr>feature = ''rx'', state = ''on''\<rparr>] = mset (offloads scenarioProfile)"
    by (simp add: scenarioProfile_def)
  with makeSignature_spec [of "''1500''" "''10001''" scenarioProfile
      "[\<lparr>feature = ''gro'', state = ''off''\<rparr>, \<lparr>feature = ''tx'', state = ''on''\<rparr>, \<lparr>feature = ''rx'', state = ''on''\<rparr>]"]
  show ?thesis by blast
qed

subsection \<open>Interface classification\<close>

lemma detectVirtualHardware_rules: "detectVirtualHardware fs name = virtualByRules fs name"
  by (auto simp: detectVirtualHardware_def virtualByRules_def hasInternalVirtualPrefix_def
      hasExternalVirtualPrefix_def pathJoin_def Let_def split: option.splits)

lemma isVirtualInterface_inv:
  "classifierInv ic fs \<Longrightarrow> name \<noteq> [] \<Longrightarrow>
     fst (isVirtualInterface ic fs name) = detectVirtualHardware fs name
     \<and> externalLinkIndexes (snd (isVirtualInterface ic fs name)) = externalLinkIndexes ic
     \<and> classifierInv (snd (isVirtualInterface ic fs name)) fs"
  by (auto simp: isVirtualInterface_def classifierInv_def Let_def split: option.splits)

lemma Classify_named:
  assumes inv: "classifierInv ic fs" and name: "Name a \<noteq> []"
  shows "fst (Classify ic fs (Some a)) = classifyByRules ic fs a"
proof -
  obtain v ic' where vi: "isVirtualInterface ic fs (Name a) = (v, ic')" by fastforce
  from isVirtualInterface_inv [OF inv name] vi
  have v: "v = virtualByRules fs (Name a)" and idx: "externalLinkIndexes ic' = externalLinkIndexes ic"
    by (simp_all add: detectVirtualHardware_rules)
  have pos: "Index a \<in> externalLinkIndexes ic \<Longrightarrow> 0 < Index a"
    using inv by (auto simp: classifierInv_def)
  have ext: "isExternalInterface ic' (Index a) (Name a)
      = (hasExternalVirtualPrefix (Name a) \<or> Index a \<in> externalLinkIndexes ic)"
    using pos by (auto simp: isExternalInterface_def idx)
  have skip: "hasInternalVirtualPrefix (Name a) = list_ex (HasPrefix (Name a))
                [''br'', ''docker'', ''veth'', ''virbr'', ''fwbr'', ''fwpr'', ''fwln'', ''tap'']"
    by (simp add: hasInternalVirtualPrefix_def internalVirtualPrefixes_def)
  show ?thesis
    unfolding Classify_def classifyByRules_def skip [symmetric]
    using name by (simp add: vi ext v Let_def)
qed

lemma Classify_preserves_inv:
  "classifierInv ic fs \<Longrightarrow> classifierInv (snd (Classify ic fs l)) fs"
proof (cases l)
  case None
  then show "classifierInv ic fs \<Longrightarrow> classifierInv (snd (Classify ic fs l)) fs"
    by (simp add: Classify_def)
next
  case (Some a)
  assume inv: "classifierInv ic fs"
  show "classifierInv (snd (Classify ic fs l)) fs"
  proof (cases "Name a = []")
    case True
    then show ?thesis using inv Some by (simp add: Classify_def Let_def)
  next
    case False
    obtain v ic' where vi: "isVirtualInterface ic fs (Name a) = (v, ic')" by fastforce
    from isVirtualInterface_inv [OF inv False] vi have "classifierInv ic' fs" by simp
    then show ?thesis using inv Some False by (simp add: Classify_def Let_def vi)
  qed
qed

lemma collectRouteIndexes_positive:
  "x \<in> collectRouteIndexes routes acc \<Longrightarrow> x \<in> acc \<or> 0 < x"
proof (induction routes arbitrary: acc)
  case Nil
  then show ?case by simp
next
  case (Cons r routes)
  show ?case
  proof (cases "\<not> isDefaultRoute r \<or> LinkIndex r \<le> 0")
    case True
    with Cons show ?thesis by auto
  next
    case False
    with Cons.prems have "x \<in> collectRouteIndexes routes (insert (LinkIndex r) acc)" by simp
    from Cons.IH [OF this] False show ?thesis by auto
  qed
qed

lemma fetchRouteIndexes_positive:
  "x \<in> fetchRouteIndexes listed acc \<Longrightarrow> x \<in> acc \<or> 0 < x"
  by (auto simp: fetchRouteIndexes_def dest: collectRouteIndexes_positive split: sum.splits)

lemma refresh_inv:
  "classifierInv ic fs \<Longrightarrow> classifierInv (refreshExternalLinkIndexes ic v4 v6) fs"
proof -
  have "0 < x" if "x \<in> fetchRouteIndexes v6 (fetchRouteIndexes v4 {})" for x
    using fetchRouteIndexes_positive [OF that] fetchRouteIndexes_positive [of x v4 "{}"] by auto
  then show "classifierInv ic fs \<Longrightarrow> classifierInv (refreshExternalLinkIndexes ic v4 v6) fs"
    by (auto simp: classifierInv_def refreshExternalLinkIndexes_def)
qed

lemma new_classifier_inv: "classifierInv NewInterfaceClassifier fs"
  by (simp add: classifierInv_def NewInterfaceClassifier_def)

text \<open>
  Claim C5 as stated fails on a link without a name: \<open>Classify\<close> answers
  \<open>classUnknown\<close> there, a class the stated decision procedure never yields.
\<close>

theorem Classify_empty_name_counterexample:
  "fst (Classify NewInterfaceClassifier noSysfs (Some (linkNamed '''' 2))) = classUnknown
   \<and> classifyByRules NewInterfaceClassifier noSysfs (linkNamed '''' 2) = classExternalPhysical"
  by code_simp


lemma wg0_facts:
  "\<not> list_ex (HasPrefix ''wg0'') [''br'', ''docker'', ''veth'', ''virbr'', ''fwbr'', ''fwpr'', ''fwln'', ''tap'']"
  "hasExternalVirtualPrefix ''wg0''"
  "virtualByRules fs ''wg0''"
  by (simp_all add: virtualByRules_def hasExternalVirtualPrefix_def externalVirtualPrefixes_def
      internalVirtualPrefixes_def HasPrefix_def)

lemma ens3_facts:
  "\<not> list_ex (HasPrefix ''ens3'') [''br'', ''docker'', ''veth'', ''virbr'', ''fwbr'', ''fwpr'', ''fwln'', ''tap'']"
  "\<not> hasExternalVirtualPrefix ''ens3''"
  by (simp_all add: hasExternalVirtualPrefix_def externalVirtualPrefixes_def HasPrefix_def)

lemma virtio_net_known: "normalizeIdentifier ''virtio_net'' \<in> virtualDriverModules"
  by code_simp

lemma ens3_virtual:
  assumes "Readlink fs ''/sys/class/net/ens3/device/driver/module'' = Some target"
    and "Base target = ''virtio_net''"
  shows "virtualByRules fs ''ens3''"
proof -
  have "interfaceDriverModule fs (''/sys/class/net/'' @ ''ens3'') = ''virtio_net''"
    using assms by (simp add: interfaceDriverModule_def readLinkBase_def pathJoin_def)
  then show ?thesis
    using virtio_net_known by (simp add: virtualByRules_def)
qed

text \<open>
  Claim C5, amended (interface classification). For a link with a non-empty name, and a
  classifier whose cache agrees with the sysfs view and whose index set is positive,
  \<open>Classify\<close> follows the stated decision procedure: loopback flag first, then the skip
  prefixes, then the combination of \<open>isExternal\<close> and \<open>isVirtual\<close>. The loopback flag
  wins whatever the name is; a link without that flag and without a name is
  \<open>classUnknown\<close>. In particular \<open>wg0\<close> is external-virtual, and \<open>ens3\<close> whose driver
  module link ends in \<open>virtio_net\<close>, with no default route, is internal-virtual.
\<close>

theorem Classify_rules:
  "(classifierInv ic fs \<and> Name a \<noteq> [] \<longrightarrow> fst (Classify ic fs (Some a)) = classifyByRules ic fs a)
   \<and> (Flags a AND FlagLoopback \<noteq> 0 \<longrightarrow> fst (Classify ic fs (Some a)) = classLoopback)
   \<and> (Flags a AND FlagLoopback = 0 \<and> Name a = [] \<longrightarrow> fst (Classify ic fs (Some a)) = classUnknown)
   \<and> (classifierInv ic fs \<and> Flags a AND FlagLoopback = 0 \<and> Name a = ''wg0''
        \<longrightarrow> fst (Classify ic fs (Some a)) = classExternalVirtual)
   \<and> (classifierInv ic fs \<and> Flags a AND FlagLoopback = 0 \<and> Name a = ''ens3''
        \<and> Index a \<notin> externalLinkIndexes ic
        \<and> Readlink fs ''/sys/class/net/ens3/device/driver/module'' = Some target
        \<and> Base target = ''virtio_net''
        \<longrightarrow> fst (Classify ic fs (Some a)) = classInternalVirtual)"
proof (intro conjI impI)
  assume "classifierInv ic fs \<and> Name a \<noteq> []"
  then show "fst (Classify ic fs (Some a)) = classifyByRules ic fs a"
    by (simp add: Classify_named)
next
  assume "Flags a AND FlagLoopback \<noteq> 0"
  then show "fst (Classify ic fs (Some a)) = classLoopback"
    by (simp add: Classify_def)
next
  assume "Flags a AND FlagLoopback = 0 \<and> Name a = []"
  then show "fst (Classify ic fs (Some a)) = classUnknown"
    by (simp add: Classify_def)
next
  assume h: "classifierInv ic fs \<and> Flags a AND FlagLoopback = 0 \<and> Name a = ''wg0''"
  then have "fst (Classify ic fs (Some a)) = classifyByRules ic fs a"
    by (simp add: Classify_named)
  also have "\<dots> = classExternalVirtual"
    using h wg0_facts by (simp add: classifyByRules_def)
  finally show "fst (Classify ic fs (Some a)) = classExternalVirtual" .
next
  assume h: "classifierInv ic fs \<and> Flags a AND FlagLoopback = 0 \<and> Name a = ''ens3''
        \<and> Index a \<notin> externalLinkIndexes ic
        \<and> Readlink fs ''/sys/class/net/ens3/device/driver/module'' = Some target
        \<and> Base target = ''virtio_net''"
  then have "fst (Classify ic fs (Some a)) = classifyByRules ic fs a"
    by (simp add: Classify_named)
  also have "\<dots> = classInternalVirtual"
    using h ens3_facts ens3_virtual [of fs target] by (simp add: classifyByRules_def)
  finally show "fst (Classify ic fs (Some a)) = classInternalVirtual" .
qed

text \<open>Scenario E on a classifier that knows a default route on link index 2.\<close>

theorem Classify_rules_witness:
  "classifierInv (NewInterfaceClassifier\<lparr>externalLinkIndexes := {2}\<rparr>) virtioSysfs
   \<and> Name (linkNamed ''eth0'' 2) \<noteq> []
   \<and> fst (Classify (NewInterfaceClassifier\<lparr>externalLinkIndexes := {2}\<rparr>) virtioSysfs (Some (linkNamed ''eth0'' 2)))
       = classExternalPhysical
   \<and> Flags (linkNamed ''lo'' 1\<lparr>Flags := 5\<rparr>) AND FlagLoopback \<noteq> 0
   \<and> fst (Classify (NewInterfaceClassifier\<lparr>externalLinkIndexes := {2}\<rparr>) virtioSysfs
            (Some (linkNamed ''lo'' 1\<lparr>Flags := 5\<rparr>))) = classLoopback
   \<and> fst (Classify (NewInterfaceClassifier\<lparr>externalLinkIndexes := {2}\<rparr>) virtioSysfs (Some (linkNamed ''wg0'' 7)))
       = classExternalVirtual
   \<and> fst (Classify (NewInterfaceClassifier\<lparr>externalLinkIndexes := {2}\<rparr>) virtioSysfs (Some (linkNamed ''ens3'' 3)))
       = classInternalVirtual"
proof -
  let ?ic = "NewInterfaceClassifier\<lparr>externalLinkIndexes := {2}\<rparr>"
  have inv: "classifierInv ?ic virtioSysfs"
    by (simp add: classifierInv_def NewInterfaceClassifier_def)
  have eth: "classifyByRules ?ic virtioSysfs (linkNamed ''eth0'' 2) = classExternalPhysical"
    by code_simp
  have lo: "Flags (linkNamed ''lo'' 1\<lparr>Flags := 5\<rparr>) AND FlagLoopback \<noteq> 0"
    by (simp add: linkNamed_def FlagLoopback_def)
  have up: "Flags (linkNamed n i) AND FlagLoopback = 0" for n i
    by (simp add: linkNamed_def FlagLoopback_def)
  have rl: "Readlink virtioSysfs ''/sys/class/net/ens3/device/driver/module'' = Some ''../../../../module/virtio_net''"
    by (simp add: virtioSysfs_def)
  have base: "Base ''../../../../module/virtio_net'' = ''virtio_net''"
    by code_simp
  have idx: "Index (linkNamed ''ens3'' 3) \<notin> externalLinkIndexes ?ic"
    by (simp add: linkNamed_def)
  have nm: "Name (linkNamed n i) = n" for n i
    by (simp add: linkNamed_def)
  have c1: "fst (Classify ?ic virtioSysfs (Some (linkNamed ''eth0'' 2))) = classExternalPhysical"
    using Classify_rules [of ?ic virtioSysfs "linkNamed ''eth0'' 2"] inv eth by (simp add: nm)
  have c2: "fst (Classify ?ic virtioSysfs (Some (linkNamed ''lo'' 1\<lparr>Flags := 5\<rparr>))) = classLoopback"
    using Classify_rules [of ?ic virtioSysfs "linkNamed ''lo'' 1\<lparr>Flags := 5\<rparr>"] lo by blast
  have c3: "fst (Classify ?ic virtioSysfs (Some (linkNamed ''wg0'' 7))) = classExternalVirtual"
    using Classify_rules [of ?ic virtioSysfs "linkNamed ''wg0'' 7"] inv up [of "''wg0''" 7] nm [of "''wg0''" 7]
    by blast
  have c4: "fst (Classify ?ic virtioSysfs (Some (linkNamed ''ens3'' 3))) = classInternalVirtual"
    using Classify_rules [of ?ic virtioSysfs "linkNamed ''ens3'' 3" "''../../../../module/virtio_net''"]
      inv up [of "''ens3''" 3] nm [of "''ens3''" 3] rl base idx
    by blast
  show ?thesis
    using inv lo c1 c2 c3 c4 by (simp add: nm)
qed
subsection \<open>Applying a profile\<close>

lemma truncateIfb_take: "truncateIfb (IfbPrefix @ n) = take 15 (''ifb4'' @ n)"
  by (simp add: truncateIfb_def IfbPrefix_def)

lemma execRun_sig:
  "execRun k name xs s = (r, s') \<Longrightarrow> appliedSignatures s' = appliedSignatures s"
  by (auto simp: execRun_def split: prod.splits)

lemma execCommand_sig:
  "execCommand k name xs sp s = (r, s') \<Longrightarrow> appliedSignatures s' = appliedSignatures s"
  by (auto simp: execCommand_def split: prod.splits option.splits if_splits dest!: execRun_sig)

lemma run_sig: "run k name xs s = (r, s') \<Longrightarrow> appliedSignatures s' = appliedSignatures s"
  by (simp add: run_def execCommand_sig)

lemma runQuiet_sig: "runQuiet k name xs s = (r, s') \<Longrightarrow> appliedSignatures s' = appliedSignatures s"
  by (simp add: runQuiet_def execCommand_sig)

lemma runOptional_sig:
  "runOptional k name xs sp s = (r, s') \<Longrightarrow> appliedSignatures s' = appliedSignatures s"
  by (simp add: runOptional_def execCommand_sig)

lemma nlLinkSetMTU_sig:
  "nlLinkSetMTU k l v s = (r, s') \<Longrightarrow> appliedSignatures s' = appliedSignatures s"
  by (auto simp: nlLinkSetMTU_def split: prod.splits)

lemma nlLinkSetTxQLen_sig:
  "nlLinkSetTxQLen k l v s = (r, s') \<Longrightarrow> appliedSignatures s' = appliedSignatures s"
  by (auto simp: nlLinkSetTxQLen_def split: prod.splits)

lemma replaceFilter_sig:
  "replaceFilter k fc s = (r, s') \<Longrightarrow> appliedSignatures s' = appliedSignatures s"
  by (auto simp: replaceFilter_def split: prod.splits dest!: run_sig runQuiet_sig)

lemma ensureIfbUp_sig:
  "ensureIfbUp k name a s = (r, s') \<Longrightarrow> appliedSignatures s' = appliedSignatures s"
  by (auto simp: ensureIfbUp_def split: prod.splits option.splits if_splits dest!: run_sig)

lemma ensureIfbLink_sig:
  "ensureIfbLink k name m q l s = (r, s') \<Longrightarrow> appliedSignatures s' = appliedSignatures s"
  by (auto simp: ensureIfbLink_def Let_def split: prod.splits option.splits if_splits
      dest!: run_sig ensureIfbUp_sig)

lemma ensureIfb_sig:
  "ensureIfb k name m q s = (r, s') \<Longrightarrow> appliedSignatures s' = appliedSignatures s"
  by (auto simp: ensureIfb_def split: sum.splits prod.splits option.splits if_splits
      dest!: run_sig ensureIfbLink_sig)

lemma readEthtoolFeatures_sig:
  "readEthtoolFeatures k ifn s = (r, s') \<Longrightarrow> appliedSignatures s' = appliedSignatures s"
  by (auto simp: readEthtoolFeatures_def runGetOutput_def split: prod.splits if_splits dest!: execRun_sig)

lemma offloadsFallback_sig:
  "appliedSignatures (offloadsFallback k ifn settings s) = appliedSignatures s"
proof (induction settings arbitrary: s)
  case Nil
  then show ?case by simp
next
  case (Cons x settings)
  obtain r s1 where r: "runOptional k ''ethtool'' [''-K'', ifn, normalizeSetFeatureName (feature x), state x]
      suppressOffloads s = (r, s1)" by fastforce
  from runOptional_sig [OF r] Cons.IH [of s1] show ?case
    by (simp add: r Let_def)
qed

lemma ensureOffloads_sig:
  "appliedSignatures (ensureOffloads k ifn settings s) = appliedSignatures s"
proof -
  obtain f s1 where f: "readEthtoolFeatures k ifn s = (f, s1)" by fastforce
  have s1: "appliedSignatures s1 = appliedSignatures s" by (rule readEthtoolFeatures_sig [OF f])
  show ?thesis
  proof (cases f)
    case None
    then show ?thesis by (simp add: ensureOffloads_def f offloadsFallback_sig s1)
  next
    case (Some cf)
    obtain cur fixed where cf: "cf = (cur, fixed)" by fastforce
    obtain r s2 where r: "runOptional k ''ethtool'' ([''-K'', ifn] @ offloadsBatch cur fixed settings)
        suppressOffloads s1 = (r, s2)" by fastforce
    from runOptional_sig [OF r] s1 show ?thesis
      by (simp add: ensureOffloads_def f Some cf Let_def r del: append.simps)
  qed
qed

lemma configureLinkParamsStep_sig:
  "configureLinkParamsStep k pc s = (r, s') \<Longrightarrow> appliedSignatures s' = appliedSignatures s"
  by (auto simp: configureLinkParamsStep_def split: sum.splits prod.splits option.splits if_splits
      dest!: nlLinkSetMTU_sig nlLinkSetTxQLen_sig)

lemma configureRootQdiscStep_sig:
  "configureRootQdiscStep k pc s = (r, s') \<Longrightarrow> appliedSignatures s' = appliedSignatures s"
  by (auto simp: configureRootQdiscStep_def Let_def split: prod.splits option.splits if_splits
      dest!: run_sig)

lemma configureIngressAndIfbStep_sig:
  "configureIngressAndIfbStep k pc s = (r, s') \<Longrightarrow> appliedSignatures s' = appliedSignatures s"
  by (auto simp: configureIngressAndIfbStep_def split: prod.splits option.splits if_splits
      dest!: run_sig ensureIfb_sig replaceFilter_sig)

lemma ensureOffloadsStep_sig:
  "ensureOffloadsStep k pc s = (r, s') \<Longrightarrow> appliedSignatures s' = appliedSignatures s"
  by (auto simp: ensureOffloadsStep_def ensureOffloads_sig)


lemma runProfileSteps_four:
  "runProfileSteps k pc profileSteps s =
     (case configureLinkParamsStep k pc s of
        (Some e, s1) \<Rightarrow> (Some e, s1)
      | (None, s1) \<Rightarrow>
          (case configureRootQdiscStep k pc s1 of
             (Some e, s2) \<Rightarrow> (Some e, s2)
           | (None, s2) \<Rightarrow>
               (case configureIngressAndIfbStep k pc s2 of
                  (Some e, s3) \<Rightarrow> (Some e, s3)
                | (None, s3) \<Rightarrow>
                    (case ensureOffloadsStep k pc s3 of
                       (Some e, s4) \<Rightarrow> (Some e, s4)
                     | (None, s4) \<Rightarrow> (None, s4)))))"
  by (simp add: profileSteps_def split: prod.splits option.splits)

lemma buildProfileContext_Built:
  assumes "Name a \<noteq> []"
    and "\<not> isAlreadyConfigured k s (Name a) (desiredSignature a p)"
    and "Atoi (fst (deriveProfileParameters a p)) = Some dm" "68 \<le> dm" "dm \<le> 65535"
    and "Atoi (snd (deriveProfileParameters a p)) = Some dq" "1 \<le> dq" "dq \<le> 1000000"
  shows "buildProfileContext k s (Some a) p pname = Built (builtContext a p pname dm dq)"
  using assms
  by (simp add: buildProfileContext_def validateProfileInput_def parseProfileParameters_def
      desiredSignature_def builtContext_def MinMTU_def MaxMTU_def MinQueueLen_def MaxQueueLen_def
      wrapInterfaceError_def Let_def case_prod_beta)

lemma buildProfileContext_skip:
  assumes "Name a \<noteq> []" and "isAlreadyConfigured k s (Name a) (desiredSignature a p)"
  shows "buildProfileContext k s (Some a) p pname = AlreadyConfigured"
  using assms
  by (simp add: buildProfileContext_def validateProfileInput_def desiredSignature_def Let_def
      case_prod_beta)

text \<open>
  Claim C3 (idempotent skip check). In a state whose applied-signature map has no entry under
  the empty name (no such entry is ever written, see \<open>configureProfile_keeps_names\<close> below),
  if the entry recorded for the link equals the newly computed signature and \<open>LinkByName\<close>
  of \<open>ifb4<iface>\<close>, cut to 15 characters, returns a link whose flags include UP, then
  \<open>configureProfile\<close> returns nil and leaves the whole state as it was: no command is run,
  no netlink call is made (the log of calls is part of the state), and the map is not touched.
\<close>

theorem configureProfile_skip:
  assumes "[] \<notin> dom (appliedSignatures s)"
    and "appliedSignatures s (Name a) = Some (desiredSignature a p)"
    and "LinkByName k (world s) (take 15 (''ifb4'' @ Name a)) = Inr (Some ifb)"
    and "Flags ifb AND FlagUp \<noteq> 0"
  shows "configureProfile k s (Some a) p pname = (None, s)"
proof -
  from assms(1,2) have name: "Name a \<noteq> []" by auto
  have "isAlreadyConfigured k s (Name a) (desiredSignature a p)"
    using assms(2-4) by (simp add: isAlreadyConfigured_def truncateIfb_take)
  from buildProfileContext_skip [OF name this] show ?thesis
    by (simp add: configureProfile_def)
qed

lemma configureProfile_keeps_names:
  assumes "[] \<notin> dom (appliedSignatures s)"
  shows "[] \<notin> dom (appliedSignatures (snd (configureProfile k s l p pname)))"
proof (cases "buildProfileContext k s l p pname")
  case (Failed e)
  then show ?thesis using assms by (simp add: configureProfile_def)
next
  case AlreadyConfigured
  then show ?thesis using assms by (simp add: configureProfile_def)
next
  case (Built pc)
  then have nm: "iface pc \<noteq> []"
    by (auto simp: buildProfileContext_def validateProfileInput_def Let_def
        split: option.splits if_splits prod.splits sum.splits)
  obtain r s1 where r: "runProfileSteps k pc profileSteps s = (r, s1)" by fastforce
  then have "appliedSignatures s1 = appliedSignatures s"
    unfolding runProfileSteps_four
    by (auto split: prod.splits option.splits
        dest!: configureLinkParamsStep_sig configureRootQdiscStep_sig
          configureIngressAndIfbStep_sig ensureOffloadsStep_sig)
  then show ?thesis
    using assms nm Built r by (cases r) (auto simp: configureProfile_def)
qed

text \<open>
  Claim C4, amended (step order and commit). For a named link that the skip check does not
  take and whose MTU and queue-length texts parse to values within \<open>[68, 65535]\<close> and
  \<open>[1, 1000000]\<close>, \<open>configureProfile\<close> runs link parameters, root qdisc, ingress with IFB
  and offloads in this order, each on the state its predecessor left; the first step that
  returns an error ends the run, that error is returned and the map of applied signatures is
  as before; when the first three steps return nil the offload step does too, and only then
  the signature is stored under the interface name.
\<close>

theorem configureProfile_steps:
  assumes "Name a \<noteq> []"
    and "\<not> isAlreadyConfigured k s (Name a) (desiredSignature a p)"
    and "Atoi (fst (deriveProfileParameters a p)) = Some dm" "68 \<le> dm" "dm \<le> 65535"
    and "Atoi (snd (deriveProfileParameters a p)) = Some dq" "1 \<le> dq" "dq \<le> 1000000"
  shows
    "(let pc = builtContext a p pname dm dq in
      case configureLinkParamsStep k pc s of
        (Some e, s1) \<Rightarrow>
          configureProfile k s (Some a) p pname = (Some e, s1) \<and> appliedSignatures s1 = appliedSignatures s
      | (None, s1) \<Rightarrow>
          (case configureRootQdiscStep k pc s1 of
             (Some e, s2) \<Rightarrow>
               configureProfile k s (Some a) p pname = (Some e, s2) \<and> appliedSignatures s2 = appliedSignatures s
           | (None, s2) \<Rightarrow>
               (case configureIngressAndIfbStep k pc s2 of
                  (Some e, s3) \<Rightarrow>
                    configureProfile k s (Some a) p pname = (Some e, s3)
                    \<and> appliedSignatures s3 = appliedSignatures s
                | (None, s3) \<Rightarrow>
                    (case ensureOffloadsStep k pc s3 of
                       (e4, s4) \<Rightarrow>
                         e4 = None
                         \<and> configureProfile k s (Some a) p pname =
                             (None, s4\<lparr>appliedSignatures :=
                                         (appliedSignatures s)(Name a \<mapsto> desiredSignature a p)\<rparr>)))))"
proof -
  let ?pc = "builtContext a p pname dm dq"
  have built: "buildProfileContext k s (Some a) p pname = Built ?pc"
    by (rule buildProfileContext_Built [OF assms])
  have flds: "iface ?pc = Name a" "signature ?pc = desiredSignature a p"
    by (simp_all add: builtContext_def)
  have cp: "configureProfile k s (Some a) p pname =
      (case runProfileSteps k ?pc profileSteps s of
         (Some err, s1) \<Rightarrow> (Some err, s1)
       | (None, s1) \<Rightarrow> (None, s1\<lparr>appliedSignatures := (appliedSignatures s1)(iface ?pc \<mapsto> signature ?pc)\<rparr>))"
    by (simp add: configureProfile_def built)
  show ?thesis
    unfolding Let_def cp runProfileSteps_four
    by (auto split: prod.splits option.splits simp: ensureOffloadsStep_def ensureOffloads_sig flds
        dest!: configureLinkParamsStep_sig configureRootQdiscStep_sig configureIngressAndIfbStep_sig)
qed

lemma scenario_desiredSignature: "desiredSignature eth0Link scenarioProfile = scenarioSignature"
  by code_simp

text \<open>The link \<open>eth0\<close> with the scenario-D signature on record and its IFB up.\<close>

theorem configureProfile_skip_witness:
  "[] \<notin> dom (appliedSignatures shapedShaper)
   \<and> appliedSignatures shapedShaper (Name eth0Link) = Some (desiredSignature eth0Link scenarioProfile)
   \<and> LinkByName stubKernel (world shapedShaper) (take 15 (''ifb4'' @ Name eth0Link))
        = Inr (Some \<lparr>Index = 9, MTU = 1500, TxQLen = 10001, Name = ''ifb4eth0'', Flags = 1\<rparr>)
   \<and> Flags \<lparr>Index = 9, MTU = 1500, TxQLen = 10001, Name = ''ifb4eth0'', Flags = 1\<rparr> AND FlagUp \<noteq> 0
   \<and> configureProfile stubKernel shapedShaper (Some eth0Link) scenarioProfile ''external-physical''
        = (None, shapedShaper)"
proof -
  have h1: "[] \<notin> dom (appliedSignatures shapedShaper)"
    by (simp add: shapedShaper_def)
  have h2: "appliedSignatures shapedShaper (Name eth0Link) = Some (desiredSignature eth0Link scenarioProfile)"
  proof -
    have "Name eth0Link = ''eth0''" by (simp add: eth0Link_def)
    then show ?thesis by (simp add: shapedShaper_def scenario_desiredSignature)
  qed
  have h3: "LinkByName stubKernel (world shapedShaper) (take 15 (''ifb4'' @ Name eth0Link))
        = Inr (Some \<lparr>Index = 9, MTU = 1500, TxQLen = 10001, Name = ''ifb4eth0'', Flags = 1\<rparr>)"
    by (simp add: stubKernel_def eth0Link_def)
  have h4: "Flags \<lparr>Index = 9, MTU = 1500, TxQLen = 10001, Name = ''ifb4eth0'', Flags = 1\<rparr> AND FlagUp \<noteq> 0"
    by (simp add: FlagUp_def)
  from configureProfile_skip [OF h1 h2 h3 h4] h1 h2 h3 h4 show ?thesis by blast
qed

text \<open>A full run on \<open>eth0\<close>: all four steps succeed and the signature is committed.\<close>

theorem configureProfile_steps_witness:
  "Name eth0Link \<noteq> []
   \<and> \<not> isAlreadyConfigured stubKernel idleShaper (Name eth0Link) (desiredSignature eth0Link scenarioProfile)
   \<and> Atoi (fst (deriveProfileParameters eth0Link scenarioProfile)) = Some 1500
   \<and> Atoi (snd (deriveProfileParameters eth0Link scenarioProfile)) = Some 10001
   \<and> fst (configureProfile stubKernel idleShaper (Some eth0Link) scenarioProfile ''external-physical'') = None
   \<and> appliedSignatures
        (snd (configureProfile stubKernel idleShaper (Some eth0Link) scenarioProfile ''external-physical''))
        ''eth0'' = Some scenarioSignature"
proof -
  let ?pc = "builtContext eth0Link scenarioProfile ''external-physical'' 1500 10001"
  have h1: "Name eth0Link \<noteq> []" by (simp add: eth0Link_def)
  have h2: "\<not> isAlreadyConfigured stubKernel idleShaper (Name eth0Link) (desiredSignature eth0Link scenarioProfile)"
    by (simp add: isAlreadyConfigured_def idleShaper_def)
  have h3: "Atoi (fst (deriveProfileParameters eth0Link scenarioProfile)) = Some 1500"
    by code_simp
  have h4: "Atoi (snd (deriveProfileParameters eth0Link scenarioProfile)) = Some 10001"
    by code_simp
  have e1: "fst (configureLinkParamsStep stubKernel ?pc idleShaper) = None"
    by code_simp
  have e2: "fst (configureRootQdiscStep stubKernel ?pc
                  (snd (configureLinkParamsStep stubKernel ?pc idleShaper))) = None"
    by code_simp
  have e3: "fst (configureIngressAndIfbStep stubKernel ?pc
                  (snd (configureRootQdiscStep stubKernel ?pc
                         (snd (configureLinkParamsStep stubKernel ?pc idleShaper))))) = None"
    by code_simp
  have nm: "Name eth0Link = ''eth0''" by (simp add: eth0Link_def)
  from configureProfile_steps [OF h1 h2 h3 _ _ h4, of "''external-physical''"] e1 e2 e3
  have "fst (configureProfile stubKernel idleShaper (Some eth0Link) scenarioProfile ''external-physical'') = None
     \<and> appliedSignatures
        (snd (configureProfile stubKernel idleShaper (Some eth0Link) scenarioProfile ''external-physical''))
        ''eth0'' = Some scenarioSignature"
    by (auto simp: Let_def nm scenario_desiredSignature split: prod.splits option.splits)
  with h1 h2 h3 h4 show ?thesis by blast
qed

text \<open>
  Claim C4 as stated fails on a link the skip check does not take but whose MTU is outside the
  accepted range: \<open>configureProfile\<close> returns the validation error without running any
  step (no call is made), although the four steps would all have succeeded, with calls, on
  the context of that link.
\<close>

theorem configureProfile_validation_counterexample:
  "\<not> isAlreadyConfigured stubKernel idleShaper (Name zeroMtuLink) (desiredSignature zeroMtuLink scenarioProfile)
   \<and> fst (configureProfile stubKernel idleShaper (Some zeroMtuLink) scenarioProfile ''external-physical'')
       = Some (Categorized CategoryRecoverable ''validate_profile_mtu'' (Msg ''mtu out of range''))
   \<and> calls (snd (configureProfile stubKernel idleShaper (Some zeroMtuLink) scenarioProfile ''external-physical'')) = []
   \<and> fst (runProfileSteps stubKernel (builtContext zeroMtuLink scenarioProfile ''external-physical'' 0 10001)
            profileSteps idleShaper) = None
   \<and> calls (snd (runProfileSteps stubKernel
                    (builtContext zeroMtuLink scenarioProfile ''external-physical'' 0 10001)
                    profileSteps idleShaper)) \<noteq> []"
  by code_simp

end
